theory Spec2Isabelle
  imports Main "HOL-Library.AList"
begin

section \<open>JavaScript values of the memory store\<close>

text \<open>
  The Durable Object of \<^verbatim>\<open>memory.ts\<close> keeps one JSON document per user under the
  storage key \<^verbatim>\<open>"memory"\<close> and changes it through \<^verbatim>\<open>deepMerge\<close>. The values
  that flow through that code are JavaScript values: \<^verbatim>\<open>undefined\<close>, \<^verbatim>\<open>null\<close>,
  booleans, numbers, strings, arrays and plain objects. A plain object is an association
  list of its own enumerable properties in property order; a well-formed object has
  pairwise different keys (\<open>wf\<close> below). \<open>JArrP\<close> is an array that also has named
  properties, which is what an assignment such as \<^verbatim>\<open>a.lastActive = 1\<close> makes of an array.
  Numbers are the integers (timestamps in milliseconds); fractions, \<^verbatim>\<open>NaN\<close> and the
  infinities do not occur here.
\<close>

datatype jsval =
    JUndefined
  | JNull
  | JBool bool
  | JNum int
  | JStr string
  | JArr "jsval list"
  | JArrP "jsval list" "(string \<times> jsval) list"
  | JObj "(string \<times> jsval) list"

text \<open>
  What a call can do: return a value, throw, or leave what is described here.
  \<open>OutOfModel\<close> marks the places where the merge loop works on something that is not a
  plain object with only its own properties in play: a property read from an array or a
  string or written to an array, a read that falls through to a prototype that the
  patch itself has installed, and the key \<^verbatim>\<open>__proto__\<close> met on a value that is not a
  plain object or whose prototype has been changed before. Nothing below says anything
  about such a run beyond the fact that it is one.
\<close>

datatype error = SyntaxError | TypeError | StorageError

datatype 'a outcome = Returns 'a | Throws error | OutOfModel

text \<open>
  The prototype of the object that a merge is filling: \<^verbatim>\<open>Object.prototype\<close>, as
  \<^verbatim>\<open>JSON.parse\<close> leaves it; \<^verbatim>\<open>null\<close>; or an array or object that the patch has put
  there through the key \<^verbatim>\<open>__proto__\<close>.
\<close>

datatype proto = ObjectProto | NullProto | PatchedProto

fun wf :: "jsval \<Rightarrow> bool" and wf_list :: "jsval list \<Rightarrow> bool"
  and wf_props :: "(string \<times> jsval) list \<Rightarrow> bool" where
  "wf (JArr xs) = wf_list xs"
| "wf (JArrP xs ps) = (wf_list xs \<and> distinct (map fst ps) \<and> wf_props ps)"
| "wf (JObj kvs) = (distinct (map fst kvs) \<and> wf_props kvs)"
| "wf _ = True"
| "wf_list [] = True"
| "wf_list (x # xs) = (wf x \<and> wf_list xs)"
| "wf_props [] = True"
| "wf_props (kv # kvs) = (wf (snd kv) \<and> wf_props kvs)"

text \<open>
  \<^verbatim>\<open>JSON.parse(JSON.stringify(v))\<close>. \<^verbatim>\<open>JSON.stringify(undefined)\<close> is
  \<^verbatim>\<open>undefined\<close>, which \<^verbatim>\<open>JSON.parse\<close> reads as the text \<^verbatim>\<open>undefined\<close> and
  rejects with a SyntaxError: that is \<open>None\<close>. Inside an array \<^verbatim>\<open>undefined\<close> is
  written as \<^verbatim>\<open>null\<close>; inside an object the property is left out. Of an array only
  the elements are written, not its named properties.
\<close>

fun jsonCopy :: "jsval \<Rightarrow> jsval option" and copyElems :: "jsval list \<Rightarrow> jsval list"
  and copyProps :: "(string \<times> jsval) list \<Rightarrow> (string \<times> jsval) list" where
  "jsonCopy JUndefined = None"
| "jsonCopy JNull = Some JNull"
| "jsonCopy (JBool b) = Some (JBool b)"
| "jsonCopy (JNum n) = Some (JNum n)"
| "jsonCopy (JStr s) = Some (JStr s)"
| "jsonCopy (JArr xs) = Some (JArr (copyElems xs))"
| "jsonCopy (JArrP xs ps) = Some (JArr (copyElems xs))"
| "jsonCopy (JObj kvs) = Some (JObj (copyProps kvs))"
| "copyElems [] = []"
| "copyElems (x # xs) = (case jsonCopy x of None \<Rightarrow> JNull | Some y \<Rightarrow> y) # copyElems xs"
| "copyProps [] = []"
| "copyProps (kv # kvs) =
     (case jsonCopy (snd kv) of None \<Rightarrow> copyProps kvs | Some y \<Rightarrow> (fst kv, y) # copyProps kvs)"

fun isPlainObject :: "jsval \<Rightarrow> bool" where
  "isPlainObject (JObj kvs) = True"
| "isPlainObject _ = False"

fun propsOf :: "jsval \<Rightarrow> (string \<times> jsval) list" where
  "propsOf (JObj kvs) = kvs"
| "propsOf _ = []"

text \<open>Whether a value has the key as a property of its own.\<close>

fun hasOwn :: "jsval \<Rightarrow> string \<Rightarrow> bool" where
  "hasOwn (JObj kvs) k = (map_of kvs k \<noteq> None)"
| "hasOwn (JArrP xs ps) k = (map_of ps k \<noteq> None)"
| "hasOwn _ k = False"

text \<open>
  \<^verbatim>\<open>result[key]\<close> as a read, for a key that is not \<^verbatim>\<open>__proto__\<close> or is a property
  of the object itself. An own property is read as it is. Without one, the read goes to
  the prototype: \<^verbatim>\<open>Object.prototype\<close> has methods only, and a method reads as a
  function, which \<^verbatim>\<open>JSON.stringify\<close> maps to \<^verbatim>\<open>undefined\<close>; the only use of the value
  read is as the first argument of \<^verbatim>\<open>deepMerge\<close>, which stringifies it at once, so it
  is \<open>JUndefined\<close> like a missing property. The same holds of the wrappers of booleans
  and numbers. With a \<^verbatim>\<open>null\<close> prototype the read is \<^verbatim>\<open>undefined\<close>.
\<close>

fun getProp :: "jsval \<Rightarrow> proto \<Rightarrow> string \<Rightarrow> jsval outcome" where
  "getProp (JObj kvs) pr k =
     (case map_of kvs k of
        Some v \<Rightarrow> Returns v
      | None \<Rightarrow> if pr = PatchedProto then OutOfModel else Returns JUndefined)"
| "getProp JUndefined pr k = Throws TypeError"
| "getProp JNull pr k = Throws TypeError"
| "getProp (JBool b) pr k = Returns JUndefined"
| "getProp (JNum n) pr k = Returns JUndefined"
| "getProp (JStr s) pr k = OutOfModel"
| "getProp (JArr xs) pr k = OutOfModel"
| "getProp (JArrP xs ps) pr k = OutOfModel"

text \<open>
  \<^verbatim>\<open>result[key] = v\<close> in the merge loop, for a key that is not \<^verbatim>\<open>__proto__\<close> or is a
  property of the object itself. The file is an ES module, hence strict code: writing a
  property to a primitive throws a TypeError, as it does for \<^verbatim>\<open>null\<close> and
  \<^verbatim>\<open>undefined\<close>. On an object the property keeps its place when it exists and is added
  last otherwise, whatever the prototype is. (JavaScript lists keys that are array indices
  before the others; the results below read a record through its properties, not through
  their order.)
\<close>

fun setProp :: "jsval \<Rightarrow> string \<Rightarrow> jsval \<Rightarrow> jsval outcome" where
  "setProp (JObj kvs) k v = Returns (JObj (AList.update k v kvs))"
| "setProp (JArr xs) k v = OutOfModel"
| "setProp (JArrP xs ps) k v = OutOfModel"
| "setProp _ k v = Throws TypeError"

text \<open>The value of a property for stating results: \<open>JUndefined\<close> when there is none.\<close>

fun propOf :: "jsval \<Rightarrow> string \<Rightarrow> jsval" where
  "propOf (JObj kvs) k = (case map_of kvs k of None \<Rightarrow> JUndefined | Some v \<Rightarrow> v)"
| "propOf (JArrP xs ps) k = (case map_of ps k of None \<Rightarrow> JUndefined | Some v \<Rightarrow> v)"
| "propOf _ k = JUndefined"

fun getPath :: "jsval \<Rightarrow> string list \<Rightarrow> jsval" where
  "getPath v [] = v"
| "getPath v (k # ks) = getPath (propOf v k) ks"

section \<open>deepMerge\<close>

text \<open>
  \<^verbatim>\<open>
  function deepMerge<T>(target: T, source: Partial<T>): T {
    const result = JSON.parse(JSON.stringify(target)) as T
    for (const key in source) {
      if (source[key] !== undefined) {
        if (typeof source[key] === 'object' && source[key] !== null && !Array.isArray(source[key])) {
          result[key] = deepMerge(result[key], source[key] as any)
        } else {
          result[key] = source[key]
        }
      }
    }
    return result
  }
  \<close>
  \<open>source\<close> is the property list of the patch object, which is an object as its type
  says (a request body that parses to an array or a primitive is not covered);
  \<open>mergeKeys\<close> is the \<^verbatim>\<open>for\<close> loop, with the result so far, its prototype and the
  properties still to visit. The right-hand side of
  \<^verbatim>\<open>result[key] = deepMerge(result[key], ...)\<close> is evaluated before the property is
  written, so a throw in the recursion leaves nothing written. What is returned is the
  result together with its prototype.

  The key \<^verbatim>\<open>__proto__\<close>. \<^verbatim>\<open>JSON.parse\<close> makes it an ordinary property of the patch, so
  the loop visits it. On a result that has a property of that name it is read and
  written like any other. On a result that has none, \<^verbatim>\<open>result["__proto__"]\<close> is the
  accessor of \<^verbatim>\<open>Object.prototype\<close>: read, it gives the prototype, whose JSON copy is
  the empty object; written, it makes an object, an array or \<^verbatim>\<open>null\<close> the prototype
  of the result and ignores any other value. In no case does the result get a property.
  \<open>protoAfter\<close> is the prototype after such a write of a value that is not a plain
  object.
\<close>

fun protoAfter :: "jsval \<Rightarrow> proto" where
  "protoAfter JNull = NullProto"
| "protoAfter (JArr xs) = PatchedProto"
| "protoAfter (JArrP xs ps) = PatchedProto"
| "protoAfter _ = ObjectProto"

function deepMerge :: "jsval \<Rightarrow> (string \<times> jsval) list \<Rightarrow> (jsval \<times> proto) outcome"
  and mergeKeys :: "jsval \<Rightarrow> proto \<Rightarrow> (string \<times> jsval) list \<Rightarrow> (jsval \<times> proto) outcome" where
  "deepMerge target source =
     (case jsonCopy target of
        None \<Rightarrow> Throws SyntaxError
      | Some result \<Rightarrow> mergeKeys result ObjectProto source)"
| "mergeKeys result pr [] = Returns (result, pr)"
| "mergeKeys result pr ((key, v) # rest) =
     (if v = JUndefined then mergeKeys result pr rest
      else if key = ''__proto__'' \<and> \<not> hasOwn result key then
        (if \<not> isPlainObject result \<or> pr \<noteq> ObjectProto then OutOfModel
         else if isPlainObject v then
           (case deepMerge (JObj []) (propsOf v) of
              Returns merged \<Rightarrow> mergeKeys result PatchedProto rest
            | Throws e \<Rightarrow> Throws e
            | OutOfModel \<Rightarrow> OutOfModel)
         else mergeKeys result (protoAfter v) rest)
      else if isPlainObject v then
        (case getProp result pr key of
           Returns cur \<Rightarrow>
             (case deepMerge cur (propsOf v) of
                Returns merged \<Rightarrow>
                  (case setProp result key (fst merged) of
                     Returns result' \<Rightarrow> mergeKeys result' pr rest
                   | Throws e \<Rightarrow> Throws e
                   | OutOfModel \<Rightarrow> OutOfModel)
              | Throws e \<Rightarrow> Throws e
              | OutOfModel \<Rightarrow> OutOfModel)
         | Throws e \<Rightarrow> Throws e
         | OutOfModel \<Rightarrow> OutOfModel)
      else
        (case setProp result key v of
           Returns result' \<Rightarrow> mergeKeys result' pr rest
         | Throws e \<Rightarrow> Throws e
         | OutOfModel \<Rightarrow> OutOfModel))"
  by pat_completeness auto
termination
proof (relation "measure (\<lambda>x. case x of
        Inl (t, s) \<Rightarrow> 2 * size (JObj s) + 1
      | Inr (r, pr, s) \<Rightarrow> 2 * size (JObj s))", goal_cases)
  case 1
  show ?case by simp
next
  case (2 target source result)
  show ?case by simp
next
  case (3 result pr key v rest)
  show ?case by simp
next
  case (4 result pr key v rest)
  then show ?case by (cases v) auto
next
  case (5 result pr key v rest x)
  show ?case by simp
next
  case (6 result pr key v rest)
  show ?case by simp
next
  case (7 result pr key v rest x)
  then show ?case by (cases v) auto
next
  case (8 result pr key v rest x y z)
  show ?case by simp
next
  case (9 result pr key v rest x)
  show ?case by simp
qed


section \<open>The Durable Object: getMemory and updateMemory\<close>

text \<open>
  \<^verbatim>\<open>
  export class UserContextDO extends DurableObject {
    constructor(state: DurableObjectState, env: Env) {
      super(state, env)
    }
  \<close>
  The methods reach the storage through \<^verbatim>\<open>this.state\<close>. An instance is described by
  which of its properties hold the \<^verbatim>\<open>DurableObjectState\<close> that the runtime passes to the
  constructor. The base class \<^verbatim>\<open>DurableObject\<close> of \<^verbatim>\<open>cloudflare:workers\<close> keeps its
  first argument as \<^verbatim>\<open>this.ctx\<close> (and its second as \<^verbatim>\<open>this.env\<close>); a constructor
  parameter without an access modifier is not a property, so the constructor above adds
  nothing to what \<^verbatim>\<open>super\<close> does, and \<^verbatim>\<open>this.state\<close> is \<^verbatim>\<open>undefined\<close> in every
  instance of the class. The guarded revision below has no constructor of its own and
  gets the same instances.
\<close>

record receiver =
  has_ctx :: bool
  has_state :: bool

definition DurableObject :: receiver where
  "DurableObject = \<lparr>has_ctx = True, has_state = False\<rparr>"

definition UserContextDO :: receiver where
  "UserContextDO = DurableObject"

text \<open>
  The storage holds one slot, the value under the key \<^verbatim>\<open>"memory"\<close>: \<open>None\<close> when
  nothing was stored, so that \<^verbatim>\<open>storage.get\<close> resolves to \<^verbatim>\<open>undefined\<close>.
  \<^verbatim>\<open>storage.put\<close> stores a structured clone: the same value, without its prototype.
  What the platform does during one call is an \<open>env\<close>:
  \<^item> \<open>get_fails\<close>: \<^verbatim>\<open>storage.get\<close> rejects; \<open>init_put_fails\<close>: the
    \<^verbatim>\<open>storage.put\<close> of \<^verbatim>\<open>getMemory\<close> rejects; \<open>put_fails\<close>: the
    \<^verbatim>\<open>storage.put\<close> of \<^verbatim>\<open>updateMemory\<close> rejects;
  \<^item> the readings of \<^verbatim>\<open>Date.now()\<close>, one for each place that reads it:
    \<open>loaded_created\<close> and \<open>loaded_active\<close> in \<^verbatim>\<open>DEFAULT_MEMORY\<close> when the module is
    loaded; \<open>clock_created\<close> and \<open>clock_active\<close> in the record that \<^verbatim>\<open>getMemory\<close>
    creates after \<^verbatim>\<open>storage.get\<close> has resolved; \<open>fallback_created\<close> and
    \<open>fallback_active\<close> in the record that the guarded \<^verbatim>\<open>getMemory\<close> returns when it
    has not returned from its \<^verbatim>\<open>try\<close> block; \<open>clock_upd\<close> in \<^verbatim>\<open>updateMemory\<close>.
\<close>

record env =
  loaded_created :: int
  loaded_active :: int
  clock_created :: int
  clock_active :: int
  fallback_created :: int
  fallback_active :: int
  clock_upd :: int
  get_fails :: bool
  init_put_fails :: bool
  put_fails :: bool

text \<open>
  \<^verbatim>\<open>
  const DEFAULT_MEMORY: UserMemory = {
    profile: { riskFactors: [], conditions: [], interests: [] },
    conversation: { recentQuestions: [], keyInsights: [] },
    meta: { createdAt: Date.now(), lastActive: Date.now() },
  }
  \<close>
  evaluated once, when the module is loaded; \<open>newMemory\<close> is
  \<^verbatim>\<open>{ ...DEFAULT_MEMORY, meta: { createdAt: Date.now(), lastActive: Date.now() } }\<close>,
  with one reading of the clock for each of the two calls. The spread shares the arrays
  of \<^verbatim>\<open>DEFAULT_MEMORY\<close> with the new record; the class never writes into a record it
  has read (\<^verbatim>\<open>deepMerge\<close> works on a copy), so the sharing is not observable and the
  record is a value here.
\<close>

definition DEFAULT_MEMORY :: "int \<Rightarrow> int \<Rightarrow> (string \<times> jsval) list" where
  "DEFAULT_MEMORY c a =
     [(''profile'', JObj [(''riskFactors'', JArr []), (''conditions'', JArr []),
                          (''interests'', JArr [])]),
      (''conversation'', JObj [(''recentQuestions'', JArr []), (''keyInsights'', JArr [])]),
      (''meta'', JObj [(''createdAt'', JNum c), (''lastActive'', JNum a)])]"

definition newMemory :: "env \<Rightarrow> int \<Rightarrow> int \<Rightarrow> jsval" where
  "newMemory e c a =
     JObj (AList.update ''meta'' (JObj [(''createdAt'', JNum c), (''lastActive'', JNum a)])
            (DEFAULT_MEMORY (loaded_created e) (loaded_active e)))"

text \<open>\<^verbatim>\<open>!memory\<close> is true for these values.\<close>

fun falsy :: "jsval \<Rightarrow> bool" where
  "falsy JUndefined = True"
| "falsy JNull = True"
| "falsy (JBool b) = (\<not> b)"
| "falsy (JNum n) = (n = 0)"
| "falsy (JStr s) = (s = [])"
| "falsy _ = False"

definition storage_get :: "jsval option \<Rightarrow> jsval" where
  "storage_get slot = (case slot of None \<Rightarrow> JUndefined | Some v \<Rightarrow> v)"

text \<open>
  \<^verbatim>\<open>
  async getMemory(): Promise<UserMemory> {
    let memory = await this.state.storage.get<UserMemory>("memory")
    if (!memory) {
      memory = { ...DEFAULT_MEMORY, meta: { createdAt: Date.now(), lastActive: Date.now() } }
      await this.state.storage.put("memory", memory)
    }
    return memory
  }
  \<close>
  The result is what the call does together with the slot afterwards. Reading
  \<^verbatim>\<open>storage\<close> from \<^verbatim>\<open>this.state\<close> throws a TypeError when \<^verbatim>\<open>this.state\<close> is
  \<^verbatim>\<open>undefined\<close>.
\<close>

definition getMemory :: "receiver \<Rightarrow> env \<Rightarrow> jsval option \<Rightarrow> jsval outcome \<times> jsval option" where
  "getMemory this e slot =
     (if \<not> has_state this then (Throws TypeError, slot)
      else if get_fails e then (Throws StorageError, slot)
      else let memory = storage_get slot in
        if falsy memory then
          (let memory' = newMemory e (clock_created e) (clock_active e) in
           if init_put_fails e then (Throws StorageError, slot)
           else (Returns memory', Some memory'))
        else (Returns memory, slot))"

text \<open>
  \<^verbatim>\<open>updated.meta.lastActive = Date.now()\<close>. \<open>setLastActive\<close> is the assignment to
  what \<^verbatim>\<open>updated.meta\<close> holds: an object gets the property or has it overwritten, and
  so does an array, which keeps its elements; \<^verbatim>\<open>undefined\<close> and \<^verbatim>\<open>null\<close> have no
  properties, and writing one to a primitive throws in strict code. The value under
  \<^verbatim>\<open>meta\<close> is changed in place, which \<open>touch\<close> writes back into \<open>updated\<close>; the
  prototype of \<open>updated\<close> is the one that the merge has left.
\<close>

fun setLastActive :: "jsval \<Rightarrow> int \<Rightarrow> jsval outcome" where
  "setLastActive (JObj kvs) now = Returns (JObj (AList.update ''lastActive'' (JNum now) kvs))"
| "setLastActive (JArr xs) now = Returns (JArrP xs [(''lastActive'', JNum now)])"
| "setLastActive (JArrP xs ps) now = Returns (JArrP xs (AList.update ''lastActive'' (JNum now) ps))"
| "setLastActive _ now = Throws TypeError"

definition touch :: "jsval \<times> proto \<Rightarrow> int \<Rightarrow> jsval outcome" where
  "touch merged now =
     (case getProp (fst merged) (snd merged) ''meta'' of
        Returns m \<Rightarrow>
          (case setLastActive m now of
             Returns m' \<Rightarrow> setProp (fst merged) ''meta'' m'
           | Throws e \<Rightarrow> Throws e
           | OutOfModel \<Rightarrow> OutOfModel)
      | Throws e \<Rightarrow> Throws e
      | OutOfModel \<Rightarrow> OutOfModel)"

text \<open>
  The value of \<^verbatim>\<open>updated\<close> after the second and third line of \<^verbatim>\<open>updateMemory\<close>,
  \<^verbatim>\<open>
    const updated = deepMerge(current, patch)
    updated.meta.lastActive = Date.now()
  \<close>
  as it is stored and returned: its own properties.
\<close>

definition updated :: "jsval \<Rightarrow> (string \<times> jsval) list \<Rightarrow> int \<Rightarrow> jsval outcome" where
  "updated current patch now =
     (case deepMerge current patch of
        Returns merged \<Rightarrow> touch merged now
      | Throws e \<Rightarrow> Throws e
      | OutOfModel \<Rightarrow> OutOfModel)"

text \<open>
  \<^verbatim>\<open>
  async updateMemory(patch: Partial<UserMemory>): Promise<UserMemory> {
    const current = await this.getMemory()
    const updated = deepMerge(current, patch)
    updated.meta.lastActive = Date.now()
    await this.state.storage.put("memory", updated)
    return updated
  }
  \<close>
\<close>

definition updateMemory ::
  "receiver \<Rightarrow> env \<Rightarrow> (string \<times> jsval) list \<Rightarrow> jsval option \<Rightarrow> jsval outcome \<times> jsval option" where
  "updateMemory this e patch slot =
     (case getMemory this e slot of
        (Returns current, slot1) \<Rightarrow>
          (case updated current patch (clock_upd e) of
             Returns u \<Rightarrow>
               if put_fails e then (Throws StorageError, slot1)
               else (Returns u, Some u)
           | Throws er \<Rightarrow> (Throws er, slot1)
           | OutOfModel \<Rightarrow> (OutOfModel, slot1))
      | (Throws er, slot1) \<Rightarrow> (Throws er, slot1)
      | (OutOfModel, slot1) \<Rightarrow> (OutOfModel, slot1))"

subsection \<open>The revision that guards the storage calls\<close>

text \<open>
  A later revision of the same class, with the same \<^verbatim>\<open>DEFAULT_MEMORY\<close> and
  \<^verbatim>\<open>deepMerge\<close> and no constructor, wraps the storage calls:
  \<^verbatim>\<open>
  async getMemory(): Promise<UserMemory> {
    try {
      // Try legacy storage first
      if (this.state?.storage?.get) {
        let memory = await this.state.storage.get<UserMemory>("memory")
        if (!memory) {
          memory = { ...DEFAULT_MEMORY, meta: { createdAt: Date.now(), lastActive: Date.now() } }
          await this.state.storage.put("memory", memory)
        }
        return memory
      }
    } catch (e) {
      console.log("Storage API not available, using in-memory fallback")
    }
    // Fallback: return default memory
    return { ...DEFAULT_MEMORY, meta: { createdAt: Date.now(), lastActive: Date.now() } }
  }

  async updateMemory(patch: Partial<UserMemory>): Promise<UserMemory> {
    const current = await this.getMemory()
    const updated = deepMerge(current, patch)
    updated.meta.lastActive = Date.now()
    try {
      if (this.state?.storage?.put) {
        await this.state.storage.put("memory", updated)
      }
    } catch (e) {
      console.log("Storage API not available, data not persisted")
    }
    return updated
  }
  \<close>
  These return the lines written to the console as a third component. With
  \<^verbatim>\<open>this.state\<close> undefined the optional chain is \<^verbatim>\<open>undefined\<close>: the storage is
  not called, nothing is thrown and nothing is logged. A \<^verbatim>\<open>DurableObjectState\<close> has
  its \<^verbatim>\<open>storage\<close> with both methods.
\<close>

definition log_fallback :: string where
  "log_fallback = ''Storage API not available, using in-memory fallback''"

definition log_not_persisted :: string where
  "log_not_persisted = ''Storage API not available, data not persisted''"

definition fallback :: "env \<Rightarrow> jsval" where
  "fallback e = newMemory e (fallback_created e) (fallback_active e)"

definition getMemory_guarded ::
  "receiver \<Rightarrow> env \<Rightarrow> jsval option \<Rightarrow> jsval \<times> jsval option \<times> string list" where
  "getMemory_guarded this e slot =
     (if has_state this then
        (if get_fails e then (fallback e, slot, [log_fallback])
         else let memory = storage_get slot in
           if falsy memory then
             (let memory' = newMemory e (clock_created e) (clock_active e) in
              if init_put_fails e then (fallback e, slot, [log_fallback])
              else (memory', Some memory', []))
           else (memory, slot, []))
      else (fallback e, slot, []))"

definition updateMemory_guarded ::
  "receiver \<Rightarrow> env \<Rightarrow> (string \<times> jsval) list \<Rightarrow> jsval option
     \<Rightarrow> jsval outcome \<times> jsval option \<times> string list" where
  "updateMemory_guarded this e patch slot =
     (case getMemory_guarded this e slot of
        (current, slot1, logs) \<Rightarrow>
          (case updated current patch (clock_upd e) of
             Returns u \<Rightarrow>
               if has_state this then
                 (if put_fails e then (Returns u, slot1, logs @ [log_not_persisted])
                  else (Returns u, Some u, logs))
               else (Returns u, slot1, logs)
           | Throws er \<Rightarrow> (Throws er, slot1, logs)
           | OutOfModel \<Rightarrow> (OutOfModel, slot1, logs)))"

section \<open>Records, patches and successive patches\<close>

text \<open>
  A JSON value is one that \<^verbatim>\<open>JSON.parse(JSON.stringify(v))\<close> gives back unchanged: it
  has no \<^verbatim>\<open>undefined\<close> in it and no array with named properties. Request bodies are
  JSON values.
\<close>

definition isJson :: "jsval \<Rightarrow> bool" where
  "isJson v = (jsonCopy v = Some v)"

fun isNum :: "jsval \<Rightarrow> bool" where
  "isNum (JNum n) = True"
| "isNum _ = False"

fun numOf :: "jsval \<Rightarrow> int" where
  "numOf (JNum n) = n"
| "numOf _ = 0"

text \<open>
  A record is a JSON object whose \<^verbatim>\<open>meta\<close> is an object with a number under
  \<^verbatim>\<open>lastActive\<close>; \<open>createdAt\<close> and \<open>lastActive\<close> read its two time stamps.
\<close>

definition isRecord :: "jsval \<Rightarrow> bool" where
  "isRecord m = (isJson m \<and> isPlainObject m \<and> isPlainObject (propOf m ''meta'')
                 \<and> isNum (getPath m [''meta'', ''lastActive'']))"

definition createdAt :: "jsval \<Rightarrow> jsval" where
  "createdAt m = getPath m [''meta'', ''createdAt'']"

definition lastActive :: "jsval \<Rightarrow> int" where
  "lastActive m = numOf (getPath m [''meta'', ''lastActive''])"

text \<open>
  Patches applied in succession, each with the reading of the clock at its third line
  and each to the record that the one before has produced; the first that does not
  return ends the succession.
\<close>

fun successive :: "jsval \<Rightarrow> ((string \<times> jsval) list \<times> int) list \<Rightarrow> jsval outcome" where
  "successive m [] = Returns m"
| "successive m ((patch, now) # rest) =
     (case updated m patch now of
        Returns u \<Rightarrow> successive u rest
      | Throws e \<Rightarrow> Throws e
      | OutOfModel \<Rightarrow> OutOfModel)"

text \<open>The clock does not run backwards: from a time \<open>t\<close> on, the readings are in order.\<close>

fun chrono :: "int \<Rightarrow> ((string \<times> jsval) list \<times> int) list \<Rightarrow> bool" where
  "chrono t [] = True"
| "chrono t ((patch, now) # rest) = (t \<le> now \<and> chrono now rest)"

text \<open>
  A patch that leaves \<^verbatim>\<open>meta.createdAt\<close> alone: a well-formed JSON object that has no
  \<^verbatim>\<open>meta\<close>, or a plain object there that has no \<^verbatim>\<open>createdAt\<close>.
\<close>

definition leavesCreatedAt :: "(string \<times> jsval) list \<Rightarrow> bool" where
  "leavesCreatedAt p =
     (isJson (JObj p) \<and> wf (JObj p) \<and>
      (propOf (JObj p) ''meta'' = JUndefined \<or>
       (isPlainObject (propOf (JObj p) ''meta'') \<and>
        getPath (JObj p) [''meta'', ''createdAt''] = JUndefined)))"

text \<open>
  A patch fits a target when the merge finds an object wherever it needs one: each
  defined value sits in a target that is a plain object, and a value that is a plain
  object sits over a target value that exists and that it fits in turn. Under the key
  \<^verbatim>\<open>__proto__\<close> of a target without a property of that name, a plain object is merged
  into the empty object instead, which it has to fit. A patch is accepted for a record
  when it is well-formed, fits the record and has no \<^verbatim>\<open>meta\<close> or a plain object there.
\<close>

fun fits :: "jsval \<Rightarrow> (string \<times> jsval) list \<Rightarrow> bool" where
  "fits t [] = True"
| "fits t ((k, v) # rest) =
     ((v = JUndefined \<or>
       (isPlainObject t \<and>
        (case v of
           JObj q \<Rightarrow>
             if k = ''__proto__'' \<and> \<not> hasOwn t k then fits (JObj []) q
             else propOf t k \<noteq> JUndefined \<and> fits (propOf t k) q
         | _ \<Rightarrow> True)))
      \<and> fits t rest)"

definition accepted :: "jsval \<Rightarrow> (string \<times> jsval) list \<Rightarrow> bool" where
  "accepted m p =
     (wf (JObj p) \<and> fits m p \<and>
      (propOf (JObj p) ''meta'' = JUndefined \<or> isPlainObject (propOf (JObj p) ''meta'')))"

subsection \<open>Sample data\<close>

definition calm :: env where
  "calm = \<lparr>loaded_created = 1000, loaded_active = 1000, clock_created = 2000,
           clock_active = 2001, fallback_created = 2002, fallback_active = 2003,
           clock_upd = 2005, get_fails = False, init_put_fails = False, put_fails = False\<rparr>"

definition stormy :: env where
  "stormy = calm\<lparr>get_fails := True, init_put_fails := True, put_fails := True\<rparr>"

definition sample :: jsval where
  "sample =
     JObj [(''profile'', JObj [(''riskFactors'', JArr [JStr ''A'']),
                              (''conditions'', JArr [JStr ''B'']), (''interests'', JArr [])]),
           (''conversation'', JObj [(''recentQuestions'', JArr [JStr ''Q1'']),
                                   (''keyInsights'', JArr [])]),
           (''meta'', JObj [(''createdAt'', JNum 1500), (''lastActive'', JNum 1600)])]"

section \<open>Properties of property access\<close>

lemmas run_defs = updated_def touch_def newMemory_def DEFAULT_MEMORY_def deepMerge.simps Let_def

declare deepMerge.simps [simp del]

lemma setProp_Returns:
  "setProp r k v = Returns r' \<Longrightarrow> \<exists>kvs. r = JObj kvs \<and> r' = JObj (AList.update k v kvs)"
  by (cases r) auto

lemma propOf_setProp:
  "setProp r k v = Returns r' \<Longrightarrow> propOf r' k' = (if k' = k then v else propOf r k')"
  by (cases r) (auto simp: AList.update_conv')

lemma hasOwn_setProp:
  "setProp r k v = Returns r' \<Longrightarrow> hasOwn r' k' = (k' = k \<or> hasOwn r k')"
  by (cases r) (auto simp: AList.update_conv' split: if_splits)

lemma propOf_mem:
  "propOf (JObj s) k = v \<Longrightarrow> v \<noteq> JUndefined \<Longrightarrow> (k, v) \<in> set s"
  by (auto split: option.splits dest: map_of_SomeD)

lemma getProp_Returns_propOf:
  "getProp r pr k = Returns cur \<Longrightarrow> cur = propOf r k"
  by (cases r) (auto split: option.splits if_splits)

lemma getProp_own:
  "isPlainObject res \<Longrightarrow> propOf res k \<noteq> JUndefined \<Longrightarrow> getProp res pr k = Returns (propOf res k)"
  by (cases res) (auto split: option.splits)

lemma getProp_no_StorageError: "getProp x y z \<noteq> Throws StorageError"
  by (cases x) (auto split: option.splits)

lemma setProp_no_StorageError: "setProp x z w \<noteq> Throws StorageError"
  by (cases x) auto

lemma setLastActive_no_StorageError: "setLastActive x n \<noteq> Throws StorageError"
  by (cases x) auto

lemma setLastActive_Returns:
  "setLastActive mv now = Returns m' \<Longrightarrow>
   propOf m' ''lastActive'' = JNum now \<and> (\<forall>k. k \<noteq> ''lastActive'' \<longrightarrow> propOf m' k = propOf mv k)
   \<and> (isPlainObject m' \<longleftrightarrow> isPlainObject mv)"
  by (cases mv) (auto simp: AList.update_conv')

lemma undefined_entries:
  "distinct (map fst s) \<Longrightarrow> propOf (JObj s) k = JUndefined \<Longrightarrow>
   \<forall>v. (k, v) \<in> set s \<longrightarrow> v = JUndefined"
proof (intro allI impI)
  fix v
  assume d: "distinct (map fst s)" and u: "propOf (JObj s) k = JUndefined" and v: "(k, v) \<in> set s"
  from d v have "map_of s k = Some v" by (rule map_of_is_SomeI)
  with u show "v = JUndefined" by simp
qed

lemma only_undefined:
  "distinct (map fst s) \<Longrightarrow> k \<notin> fst ` set s \<or> (k, JUndefined) \<in> set s \<Longrightarrow>
   \<forall>v. (k, v) \<in> set s \<longrightarrow> v = JUndefined"
proof (intro allI impI)
  fix v
  assume d: "distinct (map fst s)" and h: "k \<notin> fst ` set s \<or> (k, JUndefined) \<in> set s"
    and v: "(k, v) \<in> set s"
  from v have "k \<in> fst ` set s" by force
  with h have "(k, JUndefined) \<in> set s" by simp
  from map_of_is_SomeI[OF d this] map_of_is_SomeI[OF d v] show "v = JUndefined" by simp
qed

lemma wf_props_mem: "wf_props kvs \<Longrightarrow> (k, v) \<in> set kvs \<Longrightarrow> wf v"
  by (induction kvs) auto

lemma getPath_JUndefined [simp]: "getPath JUndefined p = JUndefined"
  by (induction p) auto

section \<open>One round of the merge loop\<close>

text \<open>
  A round of the loop that visits a defined value and returns has gone one of two ways:
  the key was \<^verbatim>\<open>__proto__\<close> on a result without such a property, and the result went
  on as it was, with whatever prototype; or a value was written under the key, the
  patch value itself or, for a plain object, the merge of what the result held and the
  patch value. From this, for a loop that returns and a key \<open>k\<close>: a key with no defined
  value among the properties visited keeps what the result held; the loop never makes
  \<^verbatim>\<open>__proto__\<close> a property; a defined value that is not a plain object ends up in the
  result as it is; a plain object ends up merged into what the result held.
\<close>

lemma mergeKeys_step:
  assumes "mergeKeys res pr ((key, v) # rest) = Returns out" and "v \<noteq> JUndefined"
  shows "(key = ''__proto__'' \<and> \<not> hasOwn res key \<and> isPlainObject res \<and> pr = ObjectProto \<and>
          (\<exists>pr'. mergeKeys res pr' rest = Returns out))
       \<or> (\<not> (key = ''__proto__'' \<and> \<not> hasOwn res key) \<and>
          (\<exists>x res'. setProp res key x = Returns res' \<and> mergeKeys res' pr rest = Returns out \<and>
             (if isPlainObject v
              then \<exists>cur prm. getProp res pr key = Returns cur \<and>
                     deepMerge cur (propsOf v) = Returns (x, prm)
              else x = v)))"
  using assms by (auto split: if_splits outcome.splits)

lemma mergeKeys_frame:
  "mergeKeys res pr s = Returns out \<Longrightarrow> \<forall>v. (k, v) \<in> set s \<longrightarrow> v = JUndefined \<Longrightarrow>
   propOf (fst out) k = propOf res k \<and> hasOwn (fst out) k = hasOwn res k"
proof (induction s arbitrary: res pr)
  case Nil
  then show ?case by auto
next
  case (Cons kv s)
  obtain key v where kv: "kv = (key, v)" by (cases kv)
  show ?case
  proof (cases "v = JUndefined")
    case True
    with Cons kv show ?thesis by auto
  next
    case False
    with Cons.prems kv have ne: "key \<noteq> k" by auto
    from mergeKeys_step[OF Cons.prems(1)[unfolded kv] False]
    consider pr' where "mergeKeys res pr' s = Returns out"
      | x res' where "setProp res key x = Returns res'" "mergeKeys res' pr s = Returns out"
      by blast
    then show ?thesis
    proof cases
      case 1
      from Cons.IH[OF 1] Cons.prems(2) show ?thesis by auto
    next
      case 2
      from Cons.IH[OF 2(2)] Cons.prems(2)
      have "propOf (fst out) k = propOf res' k \<and> hasOwn (fst out) k = hasOwn res' k" by auto
      with propOf_setProp[OF 2(1), of k] hasOwn_setProp[OF 2(1), of k] ne show ?thesis by simp
    qed
  qed
qed

lemma mergeKeys_no_proto:
  "mergeKeys res pr s = Returns out \<Longrightarrow> \<not> hasOwn res ''__proto__'' \<Longrightarrow>
   \<not> hasOwn (fst out) ''__proto__''"
proof (induction s arbitrary: res pr)
  case Nil
  then show ?case by auto
next
  case (Cons kv s)
  obtain key v where kv: "kv = (key, v)" by (cases kv)
  show ?case
  proof (cases "v = JUndefined")
    case True
    with Cons kv show ?thesis by auto
  next
    case False
    from mergeKeys_step[OF Cons.prems(1)[unfolded kv] False]
    consider pr' where "mergeKeys res pr' s = Returns out"
      | x res' where "key \<noteq> ''__proto__'' \<or> hasOwn res key"
          "setProp res key x = Returns res'" "mergeKeys res' pr s = Returns out"
      by blast
    then show ?thesis
    proof cases
      case 1
      from Cons.IH[OF 1 Cons.prems(2)] show ?thesis .
    next
      case 2
      from 2(1) Cons.prems(2) have "key \<noteq> ''__proto__''" by auto
      with hasOwn_setProp[OF 2(2), of "''__proto__''"] Cons.prems(2)
      have "\<not> hasOwn res' ''__proto__''" by simp
      from Cons.IH[OF 2(3) this] show ?thesis .
    qed
  qed
qed

lemma mergeKeys_assign:
  "distinct (map fst s) \<Longrightarrow> mergeKeys res pr s = Returns out \<Longrightarrow> (k, v) \<in> set s \<Longrightarrow>
   v \<noteq> JUndefined \<Longrightarrow> \<not> isPlainObject v \<Longrightarrow> k \<noteq> ''__proto__'' \<or> hasOwn res k \<Longrightarrow>
   propOf (fst out) k = v"
proof (induction s arbitrary: res pr)
  case Nil
  then show ?case by simp
next
  case (Cons kv s)
  obtain key w where kv: "kv = (key, w)" by (cases kv)
  from Cons.prems(1) have d: "distinct (map fst s)" by simp
  show ?case
  proof (cases "(k, v) = kv")
    case True
    with kv have [simp]: "key = k" "w = v" by auto
    from mergeKeys_step[OF Cons.prems(2)[unfolded kv]] Cons.prems(4,5,6)
    obtain res' where
      s: "setProp res k v = Returns res'" and m: "mergeKeys res' pr s = Returns out"
      by auto
    from Cons.prems(1) kv have "\<forall>v'. (k, v') \<in> set s \<longrightarrow> v' = JUndefined"
      by (auto simp: image_iff)
    from mergeKeys_frame[OF m this] propOf_setProp[OF s, of k] show ?thesis by simp
  next
    case False
    with Cons.prems(3) have mem: "(k, v) \<in> set s" by auto
    with Cons.prems(1) kv have ne: "key \<noteq> k" by (auto simp: image_iff)
    show ?thesis
    proof (cases "w = JUndefined")
      case True
      with Cons.prems(2) kv have "mergeKeys res pr s = Returns out" by simp
      from Cons.IH[OF d this mem Cons.prems(4,5,6)] show ?thesis .
    next
      case False
      from mergeKeys_step[OF Cons.prems(2)[unfolded kv] False]
      consider pr' where "mergeKeys res pr' s = Returns out"
        | x res' where "setProp res key x = Returns res'" "mergeKeys res' pr s = Returns out"
        by blast
      then show ?thesis
      proof cases
        case 1
        from Cons.IH[OF d 1 mem Cons.prems(4,5,6)] show ?thesis .
      next
        case 2
        from hasOwn_setProp[OF 2(1), of k] Cons.prems(6)
        have "k \<noteq> ''__proto__'' \<or> hasOwn res' k" by auto
        from Cons.IH[OF d 2(2) mem Cons.prems(4,5) this] show ?thesis .
      qed
    qed
  qed
qed

lemma mergeKeys_recurse:
  "distinct (map fst s) \<Longrightarrow> mergeKeys res pr s = Returns out \<Longrightarrow> (k, JObj q) \<in> set s \<Longrightarrow>
   k \<noteq> ''__proto__'' \<or> hasOwn res k \<Longrightarrow>
   \<exists>prm. deepMerge (propOf res k) q = Returns (propOf (fst out) k, prm)"
proof (induction s arbitrary: res pr)
  case Nil
  then show ?case by simp
next
  case (Cons kv s)
  obtain key w where kv: "kv = (key, w)" by (cases kv)
  from Cons.prems(1) have d: "distinct (map fst s)" by simp
  show ?case
  proof (cases "(k, JObj q) = kv")
    case True
    with kv have [simp]: "key = k" "w = JObj q" by auto
    from mergeKeys_step[OF Cons.prems(2)[unfolded kv]] Cons.prems(4)
    obtain x res' cur prm where
      g: "getProp res pr k = Returns cur" and dm: "deepMerge cur q = Returns (x, prm)" and
      s: "setProp res k x = Returns res'" and m: "mergeKeys res' pr s = Returns out"
      by auto
    from Cons.prems(1) kv have "\<forall>v'. (k, v') \<in> set s \<longrightarrow> v' = JUndefined"
      by (auto simp: image_iff)
    from mergeKeys_frame[OF m this] propOf_setProp[OF s, of k] have "propOf (fst out) k = x" by simp
    with dm getProp_Returns_propOf[OF g] show ?thesis by auto
  next
    case False
    with Cons.prems(3) have mem: "(k, JObj q) \<in> set s" by auto
    from Cons.prems(1) kv mem have ne: "key \<noteq> k" by (auto simp: image_iff)
    show ?thesis
    proof (cases "w = JUndefined")
      case True
      with Cons.prems(2) kv have "mergeKeys res pr s = Returns out" by simp
      from Cons.IH[OF d this mem Cons.prems(4)] show ?thesis .
    next
      case False
      from mergeKeys_step[OF Cons.prems(2)[unfolded kv] False]
      consider pr' where "mergeKeys res pr' s = Returns out"
        | x res' where "setProp res key x = Returns res'" "mergeKeys res' pr s = Returns out"
        by blast
      then show ?thesis
      proof cases
        case 1
        from Cons.IH[OF d 1 mem Cons.prems(4)] show ?thesis .
      next
        case 2
        from hasOwn_setProp[OF 2(1), of k] Cons.prems(4)
        have "k \<noteq> ''__proto__'' \<or> hasOwn res' k" by auto
        from Cons.IH[OF d 2(2) mem this] propOf_setProp[OF 2(1), of k] ne show ?thesis by simp
      qed
    qed
  qed
qed

lemma deepMerge_Returns:
  "deepMerge target s = Returns out \<Longrightarrow>
   \<exists>c. jsonCopy target = Some c \<and> mergeKeys c ObjectProto s = Returns out"
  by (auto simp: deepMerge.simps split: option.splits)

lemma mergeKeys_obj:
  "mergeKeys res pr s = Returns out \<Longrightarrow> isPlainObject res \<Longrightarrow> isPlainObject (fst out)"
proof (induction s arbitrary: res pr)
  case Nil
  then show ?case by auto
next
  case (Cons kv s)
  obtain k v where kv: "kv = (k, v)" by (cases kv)
  show ?case
  proof (cases "v = JUndefined")
    case True
    with Cons kv show ?thesis by simp
  next
    case False
    from mergeKeys_step[OF Cons.prems(1)[unfolded kv] False]
    consider pr' where "mergeKeys res pr' s = Returns out"
      | x res' where "setProp res k x = Returns res'" "mergeKeys res' pr s = Returns out"
      by blast
    then show ?thesis
    proof cases
      case 1
      from Cons.IH[OF 1 Cons.prems(2)] show ?thesis .
    next
      case 2
      from setProp_Returns[OF 2(1)] have "isPlainObject res'" by auto
      from Cons.IH[OF 2(2) this] show ?thesis .
    qed
  qed
qed

lemma deepMerge_obj:
  assumes dm: "deepMerge t s = Returns out" and o: "isPlainObject t"
  shows "isPlainObject (fst out)"
proof -
  from deepMerge_Returns[OF dm] obtain c where
    c: "jsonCopy t = Some c" and m: "mergeKeys c ObjectProto s = Returns out" by blast
  from o c have "isPlainObject c" by (cases t) auto
  from mergeKeys_obj[OF m this] show ?thesis .
qed

lemma no_StorageError:
  "deepMerge target source \<noteq> Throws StorageError"
  "mergeKeys result pr rest \<noteq> Throws StorageError"
proof (induction target source and result pr rest rule: deepMerge_mergeKeys.induct)
  case (1 target source)
  then show ?case by (auto simp: deepMerge.simps split: option.splits)
next
  case (2 result pr)
  then show ?case by simp
next
  case (3 result pr key v rest)
  show ?case
  proof (cases "v = JUndefined")
    case True
    with "3.IH"(1) show ?thesis by simp
  next
    case nu: False
    show ?thesis
    proof (cases "key = ''__proto__'' \<and> \<not> hasOwn result key")
      case pc: True
      show ?thesis
      proof (cases "\<not> isPlainObject result \<or> pr \<noteq> ObjectProto")
        case True
        with nu pc show ?thesis by auto
      next
        case ok: False
        show ?thesis
        proof (cases "isPlainObject v")
          case True
          show ?thesis
          proof (cases "deepMerge (JObj []) (propsOf v)")
            case (Returns x1)
            with "3.IH"(3)[OF nu pc ok True Returns] nu pc ok True show ?thesis by auto
          next
            case (Throws e)
            with "3.IH"(2)[OF nu pc ok True] nu pc ok True show ?thesis by auto
          next
            case OutOfModel
            with nu pc ok True show ?thesis by auto
          qed
        next
          case False
          with "3.IH"(4)[OF nu pc ok False] nu pc ok show ?thesis by auto
        qed
      qed
    next
      case np: False
      show ?thesis
      proof (cases "isPlainObject v")
        case True
        show ?thesis
        proof (cases "getProp result pr key")
          case g: (Returns cur)
          show ?thesis
          proof (cases "deepMerge cur (propsOf v)")
            case dm: (Returns merged)
            show ?thesis
            proof (cases "setProp result key (fst merged)")
              case (Returns res')
              with "3.IH"(6)[OF nu np True g dm Returns] nu np True g dm show ?thesis
                by (auto simp del: getProp.simps setProp.simps)
            next
              case (Throws e)
              with setProp_no_StorageError[of result key "fst merged"] nu np True g dm
              show ?thesis by (auto simp del: getProp.simps setProp.simps)
            next
              case OutOfModel
              with nu np True g dm show ?thesis by (auto simp del: getProp.simps setProp.simps)
            qed
          next
            case (Throws e)
            with "3.IH"(5)[OF nu np True g] nu np True g show ?thesis
              by (auto simp del: getProp.simps setProp.simps)
          next
            case OutOfModel
            with nu np True g show ?thesis by (auto simp del: getProp.simps setProp.simps)
          qed
        next
          case (Throws e)
          with getProp_no_StorageError[of result pr key] nu np True show ?thesis
            by (auto simp del: getProp.simps setProp.simps)
        next
          case OutOfModel
          with nu np True show ?thesis by (auto simp del: getProp.simps setProp.simps)
        qed
      next
        case False
        show ?thesis
        proof (cases "setProp result key v")
          case (Returns res')
          with "3.IH"(7)[OF nu np False Returns] nu np False show ?thesis
            by (auto simp del: getProp.simps setProp.simps)
        next
          case (Throws e)
          with setProp_no_StorageError[of result key v] nu np False show ?thesis
            by (auto simp del: getProp.simps setProp.simps)
        next
          case OutOfModel
          with nu np False show ?thesis by (auto simp del: getProp.simps setProp.simps)
        qed
      qed
    qed
  qed
qed

section \<open>JSON values as targets\<close>

lemma copyProps_length: "length (copyProps kvs) \<le> length kvs"
  by (induction kvs) (auto split: option.splits)

lemma copyProps_fixed:
  "copyProps kvs = kvs \<Longrightarrow> (k, v) \<in> set kvs \<Longrightarrow> jsonCopy v = Some v"
proof (induction kvs)
  case Nil
  then show ?case by simp
next
  case (Cons kv kvs)
  show ?case
  proof (cases "jsonCopy (snd kv)")
    case None
    with Cons.prems(1) have "length (copyProps kvs) = Suc (length kvs)" by simp
    with copyProps_length[of kvs] show ?thesis by simp
  next
    case (Some y)
    with Cons.prems(1) have "y = snd kv" "copyProps kvs = kvs"
      by (auto simp: prod_eq_iff)
    with Cons Some show ?thesis by auto
  qed
qed

lemma isJson_propOf:
  "isJson t \<Longrightarrow> propOf t k \<noteq> JUndefined \<Longrightarrow> isJson (propOf t k)"
proof (cases t)
  case (JObj kvs)
  assume a: "isJson t" "propOf t k \<noteq> JUndefined"
  with JObj have "(k, propOf t k) \<in> set kvs" by (auto intro: propOf_mem)
  moreover from a JObj have "copyProps kvs = kvs" by (simp add: isJson_def)
  ultimately show ?thesis using copyProps_fixed by (simp add: isJson_def)
qed (auto simp: isJson_def)


lemma deepMerge_isJson:
  "isJson target \<Longrightarrow> deepMerge target s = mergeKeys target ObjectProto s"
  by (simp add: deepMerge.simps isJson_def)

lemma isJson_obj_iff: "isJson (JObj kvs) \<longleftrightarrow> (\<forall>kv\<in>set kvs. isJson (snd kv))"
proof -
  have "copyProps kvs = kvs \<longleftrightarrow> (\<forall>kv\<in>set kvs. jsonCopy (snd kv) = Some (snd kv))"
  proof (induction kvs)
    case Nil
    then show ?case by simp
  next
    case (Cons kv kvs)
    show ?case
    proof (cases "jsonCopy (snd kv)")
      case None
      have "copyProps kvs \<noteq> kv # kvs"
        using copyProps_length[of kvs] by (auto dest: arg_cong[where f = length])
      with None show ?thesis by simp
    next
      case (Some y)
      with Cons show ?thesis by (auto simp: prod_eq_iff)
    qed
  qed
  then show ?thesis by (simp add: isJson_def)
qed

lemma set_update_subset: "set (AList.update k v kvs) \<subseteq> insert (k, v) (set kvs)"
  by (induction kvs) auto

lemma isJson_update:
  "isJson (JObj kvs) \<Longrightarrow> isJson v \<Longrightarrow> isJson (JObj (AList.update k v kvs))"
  unfolding isJson_obj_iff using set_update_subset[of k v kvs] by fastforce

lemma setProp_isJson:
  "setProp r k v = Returns r' \<Longrightarrow> isJson r \<Longrightarrow> isJson v \<Longrightarrow> isJson r'"
  by (auto dest!: setProp_Returns intro: isJson_update)

lemma setLastActive_isJson:
  "setLastActive mv now = Returns m' \<Longrightarrow> isPlainObject mv \<Longrightarrow> isJson mv \<Longrightarrow> isJson m'"
proof (cases mv)
  case (JObj kvs)
  assume sl: "setLastActive mv now = Returns m'" and j: "isJson mv"
  have "isJson (JNum now)" by (simp add: isJson_def)
  from isJson_update[OF j[unfolded JObj] this] sl JObj show ?thesis by auto
qed auto

lemma merge_isJson:
  "isJson target \<Longrightarrow> isJson (JObj source) \<Longrightarrow> deepMerge target source = Returns out
     \<Longrightarrow> isJson (fst out)"
  "isJson result \<Longrightarrow> isJson (JObj rest) \<Longrightarrow> mergeKeys result pr rest = Returns out
     \<Longrightarrow> isJson (fst out)"
proof (induction target source and result pr rest arbitrary: out and out
       rule: deepMerge_mergeKeys.induct)
  case (1 target source)
  from "1.prems"(1) have c: "jsonCopy target = Some target" by (simp add: isJson_def)
  from "1.prems"(1,3) have "mergeKeys target ObjectProto source = Returns out"
    by (simp add: deepMerge_isJson)
  from "1.IH"[OF c "1.prems"(1,2) this] show ?case .
next
  case (2 result pr)
  then show ?case by auto
next
  case (3 result pr key v rest)
  from "3.prems"(2) have jv: "isJson v" and jr: "isJson (JObj rest)"
    by (simp_all add: isJson_obj_iff)
  show ?case
  proof (cases "v = JUndefined")
    case True
    with "3.prems" "3.IH"(1) jr show ?thesis by simp
  next
    case nu: False
    show ?thesis
    proof (cases "key = ''__proto__'' \<and> \<not> hasOwn result key")
      case pc: True
      from "3.prems"(3) nu pc have ok: "\<not> (\<not> isPlainObject result \<or> pr \<noteq> ObjectProto)"
        by (auto split: if_splits)
      show ?thesis
      proof (cases "isPlainObject v")
        case True
        from "3.prems"(3) nu pc ok True obtain x1 where
          dm: "deepMerge (JObj []) (propsOf v) = Returns x1" and
          m: "mergeKeys result PatchedProto rest = Returns out"
          by (auto split: outcome.splits)
        from "3.IH"(3)[OF nu pc ok True dm "3.prems"(1) jr m] show ?thesis .
      next
        case False
        from "3.prems"(3) nu pc ok False
        have m: "mergeKeys result (protoAfter v) rest = Returns out" by auto
        from "3.IH"(4)[OF nu pc ok False "3.prems"(1) jr m] show ?thesis .
      qed
    next
      case np: False
      show ?thesis
      proof (cases "isPlainObject v")
        case True
        then obtain q where q: "v = JObj q" by (cases v) auto
        from "3.prems"(3) nu np True obtain cur merged res' where
          g: "getProp result pr key = Returns cur" and
          dm: "deepMerge cur (propsOf v) = Returns merged" and
          s: "setProp result key (fst merged) = Returns res'" and
          m: "mergeKeys res' pr rest = Returns out"
          by (auto split: outcome.splits)
        from deepMerge_Returns[OF dm] have "cur \<noteq> JUndefined" by auto
        with getProp_Returns_propOf[OF g] isJson_propOf[OF "3.prems"(1)] have jc: "isJson cur"
          by simp
        from jv q have "isJson (JObj (propsOf v))" by simp
        from "3.IH"(5)[OF nu np True g jc this dm] have jm: "isJson (fst merged)" .
        from setProp_isJson[OF s "3.prems"(1) jm] have "isJson res'" .
        from "3.IH"(6)[OF nu np True g dm s this jr m] show ?thesis .
      next
        case False
        from "3.prems"(3) nu np False obtain res' where
          s: "setProp result key v = Returns res'" and m: "mergeKeys res' pr rest = Returns out"
          by (auto split: outcome.splits)
        from setProp_isJson[OF s "3.prems"(1) jv] have j: "isJson res'" .
        from "3.IH"(7)[OF nu np False s j jr m] show ?thesis .
      qed
    qed
  qed
qed

section \<open>Patches that the merge accepts\<close>

lemma mergeKeys_fits:
  "fits t s \<Longrightarrow> isJson t \<Longrightarrow> wf (JObj s) \<Longrightarrow>
   (isPlainObject t \<longrightarrow> isPlainObject res) \<Longrightarrow>
   (\<forall>k\<in>fst ` set s. propOf res k = propOf t k \<and> hasOwn res k = hasOwn t k) \<Longrightarrow>
   (pr = ObjectProto \<or> ''__proto__'' \<notin> fst ` set s \<or> hasOwn t ''__proto__'') \<Longrightarrow>
   \<exists>out. mergeKeys res pr s = Returns out"
proof (induction t s arbitrary: res pr rule: fits.induct)
  case (1 t)
  then show ?case by simp
next
  case (2 t k v rest)
  from "2.prems"(3) have dk: "k \<notin> fst ` set rest" and wr: "wf (JObj rest)" and wv: "wf v"
    by auto
  from "2.prems"(1) have fr: "fits t rest" by simp
  from "2.prems"(5) have agree: "propOf res k = propOf t k" and agreeo: "hasOwn res k = hasOwn t k"
    and agr: "\<forall>k'\<in>fst ` set rest. propOf res k' = propOf t k' \<and> hasOwn res k' = hasOwn t k'"
    by auto
  show ?case
  proof (cases "v = JUndefined")
    case True
    from "2.prems"(6) have "pr = ObjectProto \<or> ''__proto__'' \<notin> fst ` set rest \<or> hasOwn t ''__proto__''"
      by auto
    from "2.IH"(3)[OF fr "2.prems"(2) wr "2.prems"(4) agr this] True show ?thesis by simp
  next
    case nu: False
    with "2.prems"(1) have ot: "isPlainObject t" by auto
    with "2.prems"(4) obtain kvs where res: "res = JObj kvs" by (cases res) auto
    show ?thesis
    proof (cases "k = ''__proto__'' \<and> \<not> hasOwn t k")
      case pc: True
      with "2.prems"(6) have po: "pr = ObjectProto" by auto
      from pc dk have nk: "''__proto__'' \<notin> fst ` set rest" by simp
      have step: "\<exists>out. mergeKeys res pr' rest = Returns out" for pr'
        using "2.IH"(3)[OF fr "2.prems"(2) wr "2.prems"(4) agr] nk by simp
      show ?thesis
      proof (cases "isPlainObject v")
        case True
        then obtain q where q: "v = JObj q" by (cases v) auto
        from "2.prems"(1) nu q pc have fq: "fits (JObj []) q" by auto
        from wv q have wq: "wf (JObj q)" by simp
        have "isJson (JObj [])" by (simp add: isJson_def)
        from "2.IH"(1)[OF q pc fq this wq, of "JObj []" ObjectProto] obtain merged where
          "mergeKeys (JObj []) ObjectProto q = Returns merged" by auto
        then have "deepMerge (JObj []) q = Returns merged" by (simp add: deepMerge.simps)
        with step[of PatchedProto] nu pc po q res agreeo show ?thesis by auto
      next
        case False
        with step[of "protoAfter v"] nu pc po res agreeo show ?thesis by auto
      qed
    next
      case np: False
      from "2.prems"(6) np
      have pr': "pr = ObjectProto \<or> ''__proto__'' \<notin> fst ` set rest \<or> hasOwn t ''__proto__''"
        by auto
      have step: "\<exists>out. mergeKeys (JObj (AList.update k x kvs)) pr rest = Returns out" for x
      proof -
        have "\<forall>k'\<in>fst ` set rest. propOf (JObj (AList.update k x kvs)) k' = propOf t k'
                \<and> hasOwn (JObj (AList.update k x kvs)) k' = hasOwn t k'"
          using agr dk res by (auto simp: AList.update_conv')
        from "2.IH"(3)[OF fr "2.prems"(2) wr _ this pr'] show ?thesis by simp
      qed
      from np agreeo have npr: "\<not> (k = ''__proto__'' \<and> \<not> hasOwn res k)" by simp
      show ?thesis
      proof (cases "isPlainObject v")
        case True
        then obtain q where q: "v = JObj q" by (cases v) auto
        from "2.prems"(1) nu q np have def: "propOf t k \<noteq> JUndefined"
          and fq: "fits (propOf t k) q" by auto
        from isJson_propOf[OF "2.prems"(2) def] have jc: "isJson (propOf t k)" .
        from wv q have wq: "wf (JObj q)" by simp
        from "2.IH"(2)[OF q np fq jc wq, of "propOf t k" ObjectProto] obtain merged where
          "mergeKeys (propOf t k) ObjectProto q = Returns merged" by auto
        with jc have dm: "deepMerge (propOf t k) q = Returns merged"
          by (simp add: deepMerge_isJson)
        from res agree def have g: "getProp res pr k = Returns (propOf t k)"
          using getProp_own[of res k pr] by simp
        obtain out where "mergeKeys (JObj (AList.update k (fst merged) kvs)) pr rest = Returns out"
          using step by blast
        with dm g nu npr q res show ?thesis by (auto simp del: getProp.simps)
      next
        case False
        obtain out where "mergeKeys (JObj (AList.update k v kvs)) pr rest = Returns out"
          using step by blast
        with nu npr res False show ?thesis by auto
      qed
    qed
  qed
qed

lemma deepMerge_fits:
  "fits t s \<Longrightarrow> isJson t \<Longrightarrow> wf (JObj s) \<Longrightarrow> \<exists>out. deepMerge t s = Returns out"
  using mergeKeys_fits[of t s t ObjectProto] by (simp add: deepMerge_isJson)

section \<open>Paths into a merged record\<close>

lemma deepMerge_path:
  "wf (JObj s) \<Longrightarrow> deepMerge target s = Returns out \<Longrightarrow> path \<noteq> [] \<Longrightarrow>
   ''__proto__'' \<notin> set path \<Longrightarrow>
   getPath (JObj s) path = v \<Longrightarrow> v \<noteq> JUndefined \<Longrightarrow> \<not> isPlainObject v \<Longrightarrow>
   getPath (fst out) path = v"
proof (induction path arbitrary: target s out)
  case Nil
  then show ?case by simp
next
  case (Cons k ks)
  from Cons.prems(1) have d: "distinct (map fst s)" and wp: "wf_props s" by auto
  from Cons.prems(4) have np: "k \<noteq> ''__proto__''" and nps: "''__proto__'' \<notin> set ks" by auto
  from deepMerge_Returns[OF Cons.prems(2)] obtain c where
    c: "jsonCopy target = Some c" and m: "mergeKeys c ObjectProto s = Returns out" by blast
  from Cons.prems(5,6) have g: "getPath (propOf (JObj s) k) ks = v"
    and nu: "getPath (propOf (JObj s) k) ks \<noteq> JUndefined" by auto
  from nu have def: "propOf (JObj s) k \<noteq> JUndefined" by auto
  from propOf_mem[OF refl def] have mem: "(k, propOf (JObj s) k) \<in> set s" .
  show ?case
  proof (cases "isPlainObject (propOf (JObj s) k)")
    case False
    from mergeKeys_assign[OF d m mem def False] np
    have "propOf (fst out) k = propOf (JObj s) k" by simp
    with g show ?thesis by simp
  next
    case True
    then obtain q where q: "propOf (JObj s) k = JObj q" by (cases "propOf (JObj s) k") auto
    with Cons.prems(5,7) have ne: "ks \<noteq> []" by auto
    from mem q have memq: "(k, JObj q) \<in> set s" by simp
    from wf_props_mem[OF wp memq] have wq: "wf (JObj q)" .
    from mergeKeys_recurse[OF d m memq] np obtain prm where
      dm: "deepMerge (propOf c k) q = Returns (propOf (fst out) k, prm)" by auto
    from g q have gq: "getPath (JObj q) ks = v" by simp
    from Cons.IH[OF wq dm ne nps gq Cons.prems(6,7)] show ?thesis by simp
  qed
qed

section \<open>The second and third line of updateMemory\<close>

lemma updated_Returns:
  "updated m p now = Returns r \<Longrightarrow>
   \<exists>u pr mv m'. deepMerge m p = Returns (u, pr) \<and> getProp u pr ''meta'' = Returns mv \<and>
      setLastActive mv now = Returns m' \<and> setProp u ''meta'' m' = Returns r"
  unfolding updated_def touch_def by (auto split: outcome.splits)

lemma updated_lastActive:
  assumes "updated m p now = Returns r"
  shows "getPath r [''meta'', ''lastActive''] = JNum now"
proof -
  from updated_Returns[OF assms] obtain u mv m' where
    sl: "setLastActive mv now = Returns m'" and sp: "setProp u ''meta'' m' = Returns r"
    by blast
  from propOf_setProp[OF sp, of "''meta''"] have "propOf r ''meta'' = m'" by simp
  with setLastActive_Returns[OF sl] show ?thesis by simp
qed

lemma updated_other:
  assumes "updated m p now = Returns r"
  shows "\<exists>u pr. deepMerge m p = Returns (u, pr)
      \<and> (\<forall>k. k \<noteq> ''meta'' \<longrightarrow> propOf r k = propOf u k \<and> hasOwn r k = hasOwn u k)"
proof -
  from updated_Returns[OF assms] obtain u pr mv m' where
    dm: "deepMerge m p = Returns (u, pr)" and sp: "setProp u ''meta'' m' = Returns r"
    by blast
  from propOf_setProp[OF sp] hasOwn_setProp[OF sp] dm show ?thesis by auto
qed

lemma updated_no_StorageError: "updated m p now \<noteq> Throws StorageError"
proof (cases "deepMerge m p")
  case dm: (Returns merged)
  show ?thesis
  proof (cases "getProp (fst merged) (snd merged) ''meta''")
    case g: (Returns mv)
    show ?thesis
    proof (cases "setLastActive mv now")
      case (Returns m')
      with dm g setProp_no_StorageError[of "fst merged" "''meta''" m'] show ?thesis
        by (simp add: updated_def touch_def del: getProp.simps setProp.simps)
    next
      case (Throws e)
      with dm g setLastActive_no_StorageError[of mv now] show ?thesis
        by (simp add: updated_def touch_def del: getProp.simps setProp.simps)
    next
      case OutOfModel
      with dm g show ?thesis by (simp add: updated_def touch_def del: getProp.simps setProp.simps)
    qed
  next
    case (Throws e)
    with dm getProp_no_StorageError[of "fst merged" "snd merged" "''meta''"] show ?thesis
      by (simp add: updated_def touch_def del: getProp.simps setProp.simps)
  next
    case OutOfModel
    with dm show ?thesis by (simp add: updated_def touch_def del: getProp.simps setProp.simps)
  qed
next
  case (Throws e)
  with no_StorageError(1)[of m p] show ?thesis by (simp add: updated_def)
next
  case OutOfModel
  then show ?thesis by (simp add: updated_def)
qed

lemma merge_meta:
  assumes "isRecord m" and "wf (JObj p)"
    and "propOf (JObj p) ''meta'' = JUndefined \<or> isPlainObject (propOf (JObj p) ''meta'')"
    and "deepMerge m p = Returns (u, pr)"
  shows "isPlainObject (propOf u ''meta'')
     \<and> (\<forall>k. getPath (JObj p) [''meta'', k] = JUndefined
            \<longrightarrow> getPath u [''meta'', k] = getPath m [''meta'', k])"
proof -
  from assms(1) have j: "isJson m" and mo: "isPlainObject (propOf m ''meta'')"
    by (simp_all add: isRecord_def)
  from assms(2) have d: "distinct (map fst p)" and wp: "wf_props p" by auto
  from assms(4) j have mk: "mergeKeys m ObjectProto p = Returns (u, pr)"
    by (simp add: deepMerge_isJson)
  show ?thesis
  proof (cases "propOf (JObj p) ''meta'' = JUndefined")
    case True
    from mergeKeys_frame[OF mk undefined_entries[OF d True]] mo show ?thesis by simp
  next
    case False
    with assms(3) obtain q where q: "propOf (JObj p) ''meta'' = JObj q"
      by (cases "propOf (JObj p) ''meta''") auto
    from propOf_mem[OF q] have memq: "(''meta'', JObj q) \<in> set p" by simp
    from wf_props_mem[OF wp memq] have dq: "distinct (map fst q)" by simp
    from mergeKeys_recurse[OF d mk memq] obtain prm where
      dm: "deepMerge (propOf m ''meta'') q = Returns (propOf u ''meta'', prm)" by auto
    from deepMerge_obj[OF dm mo] have o: "isPlainObject (propOf u ''meta'')" by simp
    from mo have "propOf m ''meta'' \<noteq> JUndefined" by auto
    from dm isJson_propOf[OF j this]
    have mq: "mergeKeys (propOf m ''meta'') ObjectProto q = Returns (propOf u ''meta'', prm)"
      by (simp add: deepMerge_isJson)
    have "getPath u [''meta'', k] = getPath m [''meta'', k]"
      if "getPath (JObj p) [''meta'', k] = JUndefined" for k
    proof -
      from that q have "propOf (JObj q) k = JUndefined" by simp
      from mergeKeys_frame[OF mq undefined_entries[OF dq this]] show ?thesis by simp
    qed
    with o show ?thesis by blast
  qed
qed

lemma updated_record:
  assumes "isRecord m" and "isJson (JObj p)" and "wf (JObj p)"
    and "propOf (JObj p) ''meta'' = JUndefined \<or> isPlainObject (propOf (JObj p) ''meta'')"
    and "updated m p now = Returns r"
  shows "isRecord r
     \<and> (\<forall>k. k \<noteq> ''lastActive'' \<and> getPath (JObj p) [''meta'', k] = JUndefined
            \<longrightarrow> getPath r [''meta'', k] = getPath m [''meta'', k])"
proof -
  from assms(1) have j: "isJson m" and o: "isPlainObject m" by (simp_all add: isRecord_def)
  from updated_Returns[OF assms(5)] obtain u pr mv m' where
    dm: "deepMerge m p = Returns (u, pr)" and g: "getProp u pr ''meta'' = Returns mv" and
    sl: "setLastActive mv now = Returns m'" and sp: "setProp u ''meta'' m' = Returns r"
    by blast
  from merge_isJson(1)[OF j assms(2) dm] have ju: "isJson u" by simp
  from merge_meta[OF assms(1,3,4) dm] have
    mo: "isPlainObject (propOf u ''meta'')" and
    keep: "\<forall>k. getPath (JObj p) [''meta'', k] = JUndefined
            \<longrightarrow> getPath u [''meta'', k] = getPath m [''meta'', k]" by simp_all
  from getProp_Returns_propOf[OF g] have mv: "mv = propOf u ''meta''" .
  from mo have "propOf u ''meta'' \<noteq> JUndefined" by auto
  from isJson_propOf[OF ju this] mv have jmv: "isJson mv" by simp
  from mo mv have omv: "isPlainObject mv" by simp
  from setLastActive_isJson[OF sl omv jmv] have jm': "isJson m'" .
  from setProp_isJson[OF sp ju jm'] have jr: "isJson r" .
  from setProp_Returns[OF sp] have or: "isPlainObject r" by auto
  from propOf_setProp[OF sp, of "''meta''"] have rm: "propOf r ''meta'' = m'" by simp
  from setLastActive_Returns[OF sl] omv have
    la: "propOf m' ''lastActive'' = JNum now" and
    other: "\<forall>k. k \<noteq> ''lastActive'' \<longrightarrow> propOf m' k = propOf mv k" and
    om': "isPlainObject m'" by simp_all
  from jr or rm la om' have "isRecord r" by (simp add: isRecord_def)
  moreover have "getPath r [''meta'', k] = getPath m [''meta'', k]"
    if "k \<noteq> ''lastActive'' \<and> getPath (JObj p) [''meta'', k] = JUndefined" for k
    using that rm other mv keep by simp
  ultimately show ?thesis by blast
qed

lemma updated_accepted:
  assumes "isRecord m" and "accepted m p"
  shows "\<exists>r. updated m p now = Returns r"
proof -
  from assms(1) have j: "isJson m" and o: "isPlainObject m" by (simp_all add: isRecord_def)
  from assms(2) have w: "wf (JObj p)" and f: "fits m p"
    and mp: "propOf (JObj p) ''meta'' = JUndefined \<or> isPlainObject (propOf (JObj p) ''meta'')"
    by (simp_all add: accepted_def)
  from deepMerge_fits[OF f j w] obtain u pr where dm: "deepMerge m p = Returns (u, pr)"
    by (cases rule: exE) auto
  from merge_meta[OF assms(1) w mp dm] have mo: "isPlainObject (propOf u ''meta'')" by simp
  from deepMerge_obj[OF dm o] obtain kvs where u: "u = JObj kvs" by (cases u) auto
  from mo obtain mq where mq: "propOf u ''meta'' = JObj mq" by (cases "propOf u ''meta''") auto
  with u have "map_of kvs ''meta'' = Some (JObj mq)" by (auto split: option.splits)
  with dm u show ?thesis by (simp add: updated_def touch_def)
qed

lemma successive_append:
  "successive m (a @ b) =
     (case successive m a of Returns r \<Rightarrow> successive r b | Throws e \<Rightarrow> Throws e
      | OutOfModel \<Rightarrow> OutOfModel)"
  by (induction a arbitrary: m) (auto split: outcome.splits)

lemma successive_lastActive:
  "successive m ps = Returns r \<Longrightarrow> chrono t ps \<Longrightarrow> lastActive m \<le> t \<Longrightarrow>
   lastActive m \<le> lastActive r"
proof (induction ps arbitrary: m t)
  case Nil
  then show ?case by simp
next
  case (Cons a ps)
  obtain p now where a: "a = (p, now)" by (cases a)
  from Cons.prems(1) a obtain u where
    u: "updated m p now = Returns u" and s: "successive u ps = Returns r"
    by (auto split: outcome.splits)
  from updated_lastActive[OF u] have la: "lastActive u = now" by (simp add: lastActive_def)
  from Cons.prems(2) a have "t \<le> now" "chrono now ps" by simp_all
  with Cons.IH[OF s, of now] la Cons.prems(3) show ?case by simp
qed

lemma successive_createdAt:
  "successive m ps = Returns r \<Longrightarrow> isRecord m \<Longrightarrow> list_all leavesCreatedAt (map fst ps) \<Longrightarrow>
   createdAt r = createdAt m \<and> isRecord r"
proof (induction ps arbitrary: m)
  case Nil
  then show ?case by simp
next
  case (Cons a ps)
  obtain p now where a: "a = (p, now)" by (cases a)
  from Cons.prems(1) a obtain u where
    u: "updated m p now = Returns u" and s: "successive u ps = Returns r"
    by (auto split: outcome.splits)
  from Cons.prems(3) a have l: "leavesCreatedAt p" and ls: "list_all leavesCreatedAt (map fst ps)"
    by simp_all
  from l have jp: "isJson (JObj p)" and wp: "wf (JObj p)"
    and mp: "propOf (JObj p) ''meta'' = JUndefined \<or> isPlainObject (propOf (JObj p) ''meta'')"
    and cu: "getPath (JObj p) [''meta'', ''createdAt''] = JUndefined"
    by (auto simp: leavesCreatedAt_def)
  from updated_record[OF Cons.prems(2) jp wp mp u] cu
  have ru: "isRecord u" and "createdAt u = createdAt m" by (simp_all add: createdAt_def)
  with Cons.IH[OF s ru ls] show ?case by simp
qed

section \<open>The methods on an object of the class\<close>

text \<open>
  On an object as the constructor leaves it, both methods of the first revision throw at
  their first access to \<^verbatim>\<open>this.state.storage\<close>.
\<close>

lemma getMemory_unbound:
  "getMemory UserContextDO e slot = (Throws TypeError, slot)"
  by (simp add: getMemory_def UserContextDO_def DurableObject_def)

lemma updateMemory_unbound:
  "updateMemory UserContextDO e patch slot = (Throws TypeError, slot)"
  by (simp add: updateMemory_def getMemory_unbound)

lemma getMemory_record:
  "isPlainObject m \<Longrightarrow>
   getMemory this e (Some m) =
     (if \<not> has_state this then (Throws TypeError, Some m)
      else if get_fails e then (Throws StorageError, Some m) else (Returns m, Some m))"
  by (cases m) (auto simp: getMemory_def storage_get_def Let_def)

lemma updateMemory_guarded_fst:
  "fst (updateMemory_guarded this e patch slot)
     = updated (fst (getMemory_guarded this e slot)) patch (clock_upd e)"
  by (cases "getMemory_guarded this e slot";
      cases "updated (fst (getMemory_guarded this e slot)) patch (clock_upd e)")
     (simp_all add: updateMemory_guarded_def)

lemma getMemory_guarded_put_fails:
  "getMemory_guarded this (e\<lparr>put_fails := b\<rparr>) slot = getMemory_guarded this e slot"
  by (simp add: getMemory_guarded_def fallback_def newMemory_def Let_def)

section \<open>The merge algorithm\<close>




section \<open>Arrays in a patch\<close>

text \<open>
  C2. A patch that supplies an array, sent to an object of the class as it is
  constructed: \<^verbatim>\<open>updateMemory\<close> throws a TypeError at its first line, whatever the
  platform does and whatever the storage holds, and the storage is left as it was. The
  second and third line of the method, on the sample record, give the record with the
  array of the patch in the place of the old one, nothing appended.
\<close>

theorem array_patch_throws:
  "updateMemory UserContextDO e
     [(''conversation'', JObj [(''recentQuestions'', JArr [JStr ''Q2''])])] slot
     = (Throws TypeError, slot)
   \<and> updated sample [(''conversation'', JObj [(''recentQuestions'', JArr [JStr ''Q2''])])] now
     = Returns (JObj [(''profile'', JObj [(''riskFactors'', JArr [JStr ''A'']),
                              (''conditions'', JArr [JStr ''B'']), (''interests'', JArr [])]),
           (''conversation'', JObj [(''recentQuestions'', JArr [JStr ''Q2'']),
                                   (''keyInsights'', JArr [])]),
           (''meta'', JObj [(''createdAt'', JNum 1500), (''lastActive'', JNum now)])])"
  by (simp add: updateMemory_def getMemory_def UserContextDO_def DurableObject_def
      run_defs sample_def)

section \<open>Creation on first access\<close>

text \<open>
  C3. \<^verbatim>\<open>getMemory\<close> on an object of the class as it is constructed throws a TypeError,
  whatever the slot holds: nothing is created, stored or returned. The record that its
  third line would create has the five sequences empty and, under \<^verbatim>\<open>createdAt\<close> and
  \<^verbatim>\<open>lastActive\<close>, one reading of the clock each.
\<close>

theorem first_get_throws:
  "getMemory UserContextDO e slot = (Throws TypeError, slot)
   \<and> newMemory e c a
     = JObj [(''profile'', JObj [(''riskFactors'', JArr []), (''conditions'', JArr []),
                                (''interests'', JArr [])]),
             (''conversation'', JObj [(''recentQuestions'', JArr []), (''keyInsights'', JArr [])]),
             (''meta'', JObj [(''createdAt'', JNum c), (''lastActive'', JNum a)])]"
  by (simp add: getMemory_def UserContextDO_def DurableObject_def newMemory_def
      DEFAULT_MEMORY_def)

section \<open>The empty patch\<close>

text \<open>
  C4. The empty patch, sent to an object of the class as it is constructed:
  \<^verbatim>\<open>updateMemory\<close> throws a TypeError and the storage is left as it was. The second
  and third line of the method, on the sample record, give that record with
  \<^verbatim>\<open>meta.lastActive\<close> set to the reading of the clock and nothing else changed.
\<close>

theorem empty_patch_throws:
  "updateMemory UserContextDO e [] slot = (Throws TypeError, slot)
   \<and> updated sample [] now
     = Returns (JObj [(''profile'', JObj [(''riskFactors'', JArr [JStr ''A'']),
                              (''conditions'', JArr [JStr ''B'']), (''interests'', JArr [])]),
           (''conversation'', JObj [(''recentQuestions'', JArr [JStr ''Q1'']),
                                   (''keyInsights'', JArr [])]),
           (''meta'', JObj [(''createdAt'', JNum 1500), (''lastActive'', JNum now)])])"
  by (simp add: updateMemory_def getMemory_def UserContextDO_def DurableObject_def
      run_defs sample_def)

section \<open>createdAt and lastActive\<close>

text \<open>
  C5, as the code has it. Whatever the record and the patch, a result that the second
  and third line of \<^verbatim>\<open>updateMemory\<close> produce has the reading of the clock under
  \<^verbatim>\<open>meta.lastActive\<close>. For patches applied in succession, when the whole succession
  returns, so does every initial part of it; from there on \<^verbatim>\<open>lastActive\<close> does not
  decrease if the clock does not run backwards, and \<^verbatim>\<open>createdAt\<close> stays what it was
  if the record was a record and every later patch leaves \<^verbatim>\<open>meta.createdAt\<close> alone.
  \<^verbatim>\<open>getMemory\<close>, on a slot that holds a record, leaves the slot as it is and returns
  that record or throws. On an object of the class as it is constructed, both methods
  throw a TypeError: no call returns a record.
\<close>

theorem createdAt_lastActive_history:
  "(\<forall>r. updated m p now = Returns r \<longrightarrow> getPath r [''meta'', ''lastActive''] = JNum now)
   \<and> (\<forall>r2. successive m (ps1 @ ps2) = Returns r2 \<longrightarrow>
        (\<exists>r1. successive m ps1 = Returns r1
           \<and> (chrono (lastActive r1) ps2 \<longrightarrow> lastActive r1 \<le> lastActive r2)
           \<and> (isRecord r1 \<and> list_all leavesCreatedAt (map fst ps2)
                \<longrightarrow> createdAt r2 = createdAt r1)))
   \<and> (isRecord m \<longrightarrow> snd (getMemory this e (Some m)) = Some m
        \<and> fst (getMemory this e (Some m)) \<in> {Returns m, Throws TypeError, Throws StorageError})
   \<and> getMemory UserContextDO e slot = (Throws TypeError, slot)
   \<and> updateMemory UserContextDO e p slot = (Throws TypeError, slot)"
proof (intro conjI allI impI)
  fix r
  assume "updated m p now = Returns r"
  from updated_lastActive[OF this] show "getPath r [''meta'', ''lastActive''] = JNum now" .
next
  fix r2
  assume s: "successive m (ps1 @ ps2) = Returns r2"
  then obtain r1 where r1: "successive m ps1 = Returns r1" and r2: "successive r1 ps2 = Returns r2"
    by (auto simp: successive_append split: outcome.splits)
  have "lastActive r1 \<le> lastActive r2" if "chrono (lastActive r1) ps2"
    using successive_lastActive[OF r2 that] by simp
  moreover have "createdAt r2 = createdAt r1"
    if "isRecord r1 \<and> list_all leavesCreatedAt (map fst ps2)"
    using successive_createdAt[OF r2] that by simp
  ultimately show "\<exists>r1. successive m ps1 = Returns r1
           \<and> (chrono (lastActive r1) ps2 \<longrightarrow> lastActive r1 \<le> lastActive r2)
           \<and> (isRecord r1 \<and> list_all leavesCreatedAt (map fst ps2)
                \<longrightarrow> createdAt r2 = createdAt r1)"
    using r1 by blast
next
  assume "isRecord m"
  then have "isPlainObject m" by (simp add: isRecord_def)
  from getMemory_record[OF this, of this e]
  show "snd (getMemory this e (Some m)) = Some m" by simp
next
  assume "isRecord m"
  then have "isPlainObject m" by (simp add: isRecord_def)
  from getMemory_record[OF this, of this e]
  show "fst (getMemory this e (Some m)) \<in> {Returns m, Throws TypeError, Throws StorageError}"
    by simp
next
  show "getMemory UserContextDO e slot = (Throws TypeError, slot)" by (rule getMemory_unbound)
next
  show "updateMemory UserContextDO e p slot = (Throws TypeError, slot)"
    by (rule updateMemory_unbound)
qed

theorem createdAt_lastActive_history_witness:
  "successive sample
     [([], 2005), ([(''profile'', JObj [(''conditions'', JArr [JStr ''C''])])], 2010)]
     = Returns (JObj [(''profile'', JObj [(''riskFactors'', JArr [JStr ''A'']),
                              (''conditions'', JArr [JStr ''C'']), (''interests'', JArr [])]),
           (''conversation'', JObj [(''recentQuestions'', JArr [JStr ''Q1'']),
                                   (''keyInsights'', JArr [])]),
           (''meta'', JObj [(''createdAt'', JNum 1500), (''lastActive'', JNum 2010)])])
   \<and> successive sample [([], 2005)]
     = Returns (JObj [(''profile'', JObj [(''riskFactors'', JArr [JStr ''A'']),
                              (''conditions'', JArr [JStr ''B'']), (''interests'', JArr [])]),
           (''conversation'', JObj [(''recentQuestions'', JArr [JStr ''Q1'']),
                                   (''keyInsights'', JArr [])]),
           (''meta'', JObj [(''createdAt'', JNum 1500), (''lastActive'', JNum 2005)])])
   \<and> (2005::int) \<le> 2010
   \<and> JNum 1500 = createdAt sample
   \<and> isRecord sample
   \<and> snd (getMemory UserContextDO calm (Some sample)) = Some sample"
proof -
  let ?p = "[(''profile'', JObj [(''conditions'', JArr [JStr ''C''])])]"
  let ?r1 = "JObj [(''profile'', JObj [(''riskFactors'', JArr [JStr ''A'']),
                              (''conditions'', JArr [JStr ''B'']), (''interests'', JArr [])]),
           (''conversation'', JObj [(''recentQuestions'', JArr [JStr ''Q1'']),
                                   (''keyInsights'', JArr [])]),
           (''meta'', JObj [(''createdAt'', JNum 1500), (''lastActive'', JNum 2005)])]"
  let ?r2 = "JObj [(''profile'', JObj [(''riskFactors'', JArr [JStr ''A'']),
                              (''conditions'', JArr [JStr ''C'']), (''interests'', JArr [])]),
           (''conversation'', JObj [(''recentQuestions'', JArr [JStr ''Q1'']),
                                   (''keyInsights'', JArr [])]),
           (''meta'', JObj [(''createdAt'', JNum 1500), (''lastActive'', JNum 2010)])]"
  have u1: "updated sample [] 2005 = Returns ?r1" by (simp add: run_defs sample_def)
  have u2: "updated ?r1 ?p 2010 = Returns ?r2" by (simp add: run_defs)
  from u1 have s1: "successive sample [([], 2005)] = Returns ?r1" by simp
  from u1 u2 have s2: "successive sample ([([], 2005)] @ [(?p, 2010)]) = Returns ?r2" by simp
  have rec: "isRecord sample" by (simp add: isRecord_def isJson_def sample_def)
  have rec1: "isRecord ?r1" by (simp add: isRecord_def isJson_def)
  have l: "list_all leavesCreatedAt (map fst [(?p, 2010::int)])"
    by (simp add: leavesCreatedAt_def isJson_def)
  have c: "chrono (lastActive ?r1) [(?p, 2010)]" by (simp add: lastActive_def)
  note all = createdAt_lastActive_history[of sample "[]" 2005 "[([], 2005)]" "[(?p, 2010)]"
      UserContextDO calm]
  from mp[OF spec[OF conjunct1[OF conjunct2[OF all]]] s2] s1 c rec1 l
  have "lastActive ?r1 \<le> lastActive ?r2" and "createdAt ?r2 = createdAt ?r1" by auto
  then have a: "(2005::int) \<le> 2010" and b: "JNum 1500 = createdAt sample"
    by (simp_all add: lastActive_def createdAt_def sample_def)
  from mp[OF conjunct1[OF conjunct2[OF conjunct2[OF all]]] rec]
  have g: "snd (getMemory UserContextDO calm (Some sample)) = Some sample" by simp
  from s2 have s2': "successive sample [([], 2005), (?p, 2010)] = Returns ?r2" by simp
  from s2' s1 a b rec g show ?thesis by (intro conjI)
qed

text \<open>
  Nothing protects \<^verbatim>\<open>meta.createdAt\<close>: a patch that supplies it replaces it, and a
  patch with an array under \<^verbatim>\<open>meta\<close> replaces the whole object, so that
  \<^verbatim>\<open>createdAt\<close> is gone and \<^verbatim>\<open>lastActive\<close> is a property of the array.
\<close>

theorem createdAt_overwritten_counterexample:
  "isRecord sample \<and> createdAt sample = JNum 1500
   \<and> updated sample [(''meta'', JObj [(''createdAt'', JNum 0)])] 2005
     = Returns (JObj [(''profile'', JObj [(''riskFactors'', JArr [JStr ''A'']),
                              (''conditions'', JArr [JStr ''B'']), (''interests'', JArr [])]),
           (''conversation'', JObj [(''recentQuestions'', JArr [JStr ''Q1'']),
                                   (''keyInsights'', JArr [])]),
           (''meta'', JObj [(''createdAt'', JNum 0), (''lastActive'', JNum 2005)])])
   \<and> updated sample [(''meta'', JArr [])] 2005
     = Returns (JObj [(''profile'', JObj [(''riskFactors'', JArr [JStr ''A'']),
                              (''conditions'', JArr [JStr ''B'']), (''interests'', JArr [])]),
           (''conversation'', JObj [(''recentQuestions'', JArr [JStr ''Q1'']),
                                   (''keyInsights'', JArr [])]),
           (''meta'', JArrP [] [(''lastActive'', JNum 2005)])])"
  by (simp add: run_defs sample_def isRecord_def isJson_def createdAt_def)

section \<open>Undefined and null in a patch\<close>

text \<open>
  C6, as the code has it. Take a target that is a JSON value and a patch whose keys are
  pairwise different at every level. If the patch fits the target, the merge returns.
  Whenever the merge returns a result \<open>r\<close>: a key that the patch does not have, or has
  with the value \<^verbatim>\<open>undefined\<close>, has in \<open>r\<close> the value it had in the target; a key
  that the patch has with the value \<^verbatim>\<open>null\<close> has the value \<^verbatim>\<open>null\<close> in \<open>r\<close>, unless
  the key is \<^verbatim>\<open>__proto__\<close> and the target has no property of that name, in which case
  \<open>r\<close> has none either. With \<^verbatim>\<open>null\<close> under \<^verbatim>\<open>meta\<close>, the second and third line
  of \<^verbatim>\<open>updateMemory\<close> never produce a result.
\<close>

theorem deepMerge_undefined_null:
  assumes "isJson target" and "wf (JObj source)"
  shows "(fits target source \<longrightarrow> (\<exists>out. deepMerge target source = Returns out))
     \<and> (\<forall>r pr. deepMerge target source = Returns (r, pr) \<longrightarrow>
          (\<forall>k. k \<notin> fst ` set source \<or> (k, JUndefined) \<in> set source
               \<longrightarrow> propOf r k = propOf target k)
        \<and> (\<forall>k. (k, JNull) \<in> set source \<and> (k \<noteq> ''__proto__'' \<or> hasOwn target k)
               \<longrightarrow> propOf r k = JNull)
        \<and> ((''__proto__'', JNull) \<in> set source \<and> \<not> hasOwn target ''__proto__''
               \<longrightarrow> propOf r ''__proto__'' = JUndefined))
     \<and> ((''meta'', JNull) \<in> set source \<longrightarrow> (\<forall>now r. updated target source now \<noteq> Returns r))"
proof -
  from assms(2) have d: "distinct (map fst source)" by simp
  have mk: "mergeKeys target ObjectProto source = Returns (r, pr)"
    if "deepMerge target source = Returns (r, pr)" for r pr
    using that assms(1) by (simp add: deepMerge_isJson)
  have keep: "propOf r k = propOf target k"
    if "deepMerge target source = Returns (r, pr)"
      and "k \<notin> fst ` set source \<or> (k, JUndefined) \<in> set source" for r pr k
    using mergeKeys_frame[OF mk[OF that(1)] only_undefined[OF d that(2)]] by simp
  have null: "propOf r k = JNull"
    if "deepMerge target source = Returns (r, pr)"
      and "(k, JNull) \<in> set source \<and> (k \<noteq> ''__proto__'' \<or> hasOwn target k)" for r pr k
    using mergeKeys_assign[OF d mk[OF that(1)], of k JNull] that(2) by simp
  have proto: "propOf r ''__proto__'' = JUndefined"
    if "deepMerge target source = Returns (r, pr)"
      and "(''__proto__'', JNull) \<in> set source \<and> \<not> hasOwn target ''__proto__''" for r pr
  proof -
    from mergeKeys_no_proto[OF mk[OF that(1)]] that(2) have "\<not> hasOwn r ''__proto__''" by simp
    then show ?thesis by (cases r) auto
  qed
  have meta: "updated target source now \<noteq> Returns r"
    if mem: "(''meta'', JNull) \<in> set source" for now r
  proof
    assume "updated target source now = Returns r"
    from updated_Returns[OF this] obtain u pr mv m' where
      dm: "deepMerge target source = Returns (u, pr)" and
      g: "getProp u pr ''meta'' = Returns mv" and
      sl: "setLastActive mv now = Returns m'" by blast
    from null[OF dm, of "''meta''"] mem have "propOf u ''meta'' = JNull" by simp
    with getProp_Returns_propOf[OF g] sl show False by simp
  qed
  from deepMerge_fits[OF _ assms] keep null proto meta show ?thesis by blast
qed

theorem deepMerge_undefined_null_witness:
  "isJson sample \<and> fits sample [(''profile'', JUndefined), (''conversation'', JNull)]
   \<and> deepMerge sample [(''profile'', JUndefined), (''conversation'', JNull)]
     = Returns (JObj [(''profile'', JObj [(''riskFactors'', JArr [JStr ''A'']),
                              (''conditions'', JArr [JStr ''B'']), (''interests'', JArr [])]),
           (''conversation'', JNull),
           (''meta'', JObj [(''createdAt'', JNum 1500), (''lastActive'', JNum 1600)])],
         ObjectProto)
   \<and> propOf (JObj [(''profile'', JObj [(''riskFactors'', JArr [JStr ''A'']),
                              (''conditions'', JArr [JStr ''B'']), (''interests'', JArr [])]),
           (''conversation'', JNull),
           (''meta'', JObj [(''createdAt'', JNum 1500), (''lastActive'', JNum 1600)])])
        ''profile'' = propOf sample ''profile''
   \<and> propOf (JObj [(''profile'', JObj [(''riskFactors'', JArr [JStr ''A'']),
                              (''conditions'', JArr [JStr ''B'']), (''interests'', JArr [])]),
           (''conversation'', JNull),
           (''meta'', JObj [(''createdAt'', JNum 1500), (''lastActive'', JNum 1600)])])
        ''conversation'' = JNull"
proof -
  let ?s = "[(''profile'', JUndefined), (''conversation'', JNull)]"
  let ?r = "JObj [(''profile'', JObj [(''riskFactors'', JArr [JStr ''A'']),
                              (''conditions'', JArr [JStr ''B'']), (''interests'', JArr [])]),
           (''conversation'', JNull),
           (''meta'', JObj [(''createdAt'', JNum 1500), (''lastActive'', JNum 1600)])]"
  have j: "isJson sample" by (simp add: isJson_def sample_def)
  have w: "wf (JObj ?s)" by simp
  have f: "fits sample ?s" by (simp add: sample_def)
  have run: "deepMerge sample ?s = Returns (?r, ObjectProto)" by (simp add: run_defs sample_def)
  have u: "(''profile'', JUndefined) \<in> set ?s" by simp
  have n: "(''conversation'', JNull) \<in> set ?s" by simp
  have c: "''conversation'' \<noteq> ''__proto__''" by simp
  note all = deepMerge_undefined_null[OF j w]
  note body = mp[OF spec[OF spec[OF conjunct1[OF conjunct2[OF all]]]] run]
  from conjunct1[OF body] u
  have 1: "propOf ?r ''profile'' = propOf sample ''profile''" by blast
  from conjunct1[OF conjunct2[OF body]] n c
  have 2: "propOf ?r ''conversation'' = JNull" by blast
  from j f run 1 2 show ?thesis by (intro conjI)
qed

text \<open>
  With \<^verbatim>\<open>null\<close> under \<^verbatim>\<open>meta\<close> the assignment of \<^verbatim>\<open>lastActive\<close> throws, so no
  record with that \<^verbatim>\<open>null\<close> is stored or returned; and \<^verbatim>\<open>null\<close> under
  \<^verbatim>\<open>__proto__\<close> changes the prototype of the result and none of its properties.
\<close>

theorem null_not_assigned_counterexample:
  "updated sample [(''meta'', JNull)] 2005 = Throws TypeError
   \<and> deepMerge sample [(''__proto__'', JNull)] = Returns (sample, NullProto)
   \<and> propOf sample ''__proto__'' = JUndefined"
  by (simp add: run_defs sample_def)

section \<open>No validation against the schema\<close>

text \<open>
  C7, as the code has it. Nothing compares a patch with the shape of \<^verbatim>\<open>UserMemory\<close>,
  and there is no error for a malformed patch. For a record and a patch accepted for it,
  the second and third line of \<^verbatim>\<open>updateMemory\<close> produce a result, and every value of
  the patch that is not a plain object (a string where the schema has an array, say), at
  a path that does not start with \<^verbatim>\<open>meta\<close> and has no \<^verbatim>\<open>__proto__\<close> in it, is at
  that path in the result as it is. On an object of the class as it is constructed the
  call throws a TypeError at its first line, for every patch alike.
\<close>

theorem mismatch_kept_as_is:
  assumes "isRecord m" and "accepted m p"
    and "path \<noteq> []" and "hd path \<noteq> ''meta''" and "''__proto__'' \<notin> set path"
    and "getPath (JObj p) path = v" and "v \<noteq> JUndefined" and "\<not> isPlainObject v"
  shows "(\<exists>r. updated m p now = Returns r \<and> getPath r path = v)
     \<and> updateMemory UserContextDO e p slot = (Throws TypeError, slot)"
proof -
  from updated_accepted[OF assms(1,2)] obtain r where r: "updated m p now = Returns r" by blast
  from updated_other[OF r] obtain u pr where dm: "deepMerge m p = Returns (u, pr)"
    and other: "\<forall>k. k \<noteq> ''meta'' \<longrightarrow> propOf r k = propOf u k \<and> hasOwn r k = hasOwn u k"
    by blast
  from assms(2) have w: "wf (JObj p)" by (simp add: accepted_def)
  from deepMerge_path[OF w dm assms(3,5,6,7,8)] have gu: "getPath u path = v" by simp
  from assms(3) obtain k ks where path: "path = k # ks" by (cases path) auto
  with assms(4) other have "propOf r k = propOf u k" by simp
  with gu path have "getPath r path = v" by simp
  with r updateMemory_unbound show ?thesis by blast
qed

theorem mismatch_kept_as_is_witness:
  "isRecord sample
   \<and> accepted sample [(''profile'', JObj [(''riskFactors'', JStr ''oops'')])]
   \<and> getPath (JObj [(''profile'', JObj [(''riskFactors'', JStr ''oops'')])])
        [''profile'', ''riskFactors''] = JStr ''oops''
   \<and> (\<exists>r. updated sample [(''profile'', JObj [(''riskFactors'', JStr ''oops'')])] 2005 = Returns r
          \<and> getPath r [''profile'', ''riskFactors''] = JStr ''oops'')"
proof -
  let ?p = "[(''profile'', JObj [(''riskFactors'', JStr ''oops'')])]"
  have rec: "isRecord sample" by (simp add: isRecord_def isJson_def sample_def)
  have acc: "accepted sample ?p" by (simp add: accepted_def sample_def)
  have g: "getPath (JObj ?p) [''profile'', ''riskFactors''] = JStr ''oops''" by simp
  have 1: "[''profile'', ''riskFactors''] \<noteq> []" by simp
  have 2: "hd [''profile'', ''riskFactors''] \<noteq> ''meta''" by simp
  have 3: "''__proto__'' \<notin> set [''profile'', ''riskFactors'']" by simp
  have 4: "JStr ''oops'' \<noteq> JUndefined" by simp
  have 5: "\<not> isPlainObject (JStr ''oops'')" by simp
  from conjunct1[OF mismatch_kept_as_is[OF rec acc 1 2 3 g 4 5, of 2005 calm None]]
  have "\<exists>r. updated sample ?p 2005 = Returns r
          \<and> getPath r [''profile'', ''riskFactors''] = JStr ''oops''" .
  with rec acc g show ?thesis by (intro conjI)
qed

text \<open>
  A string where the schema has an array: the merge neither rejects nor drops it. The
  call of the first revision fails, as it does for the empty patch, and the call of the
  guarded revision returns the record with the string in it.
\<close>

theorem mismatch_kept_counterexample:
  "updated sample [(''profile'', JObj [(''riskFactors'', JStr ''oops'')])] 2005
     = Returns (JObj [(''profile'', JObj [(''riskFactors'', JStr ''oops''),
                              (''conditions'', JArr [JStr ''B'']), (''interests'', JArr [])]),
           (''conversation'', JObj [(''recentQuestions'', JArr [JStr ''Q1'']),
                                   (''keyInsights'', JArr [])]),
           (''meta'', JObj [(''createdAt'', JNum 1500), (''lastActive'', JNum 2005)])])
   \<and> updateMemory UserContextDO calm [(''profile'', JObj [(''riskFactors'', JStr ''oops'')])]
        (Some sample) = (Throws TypeError, Some sample)
   \<and> updateMemory UserContextDO calm [] (Some sample) = (Throws TypeError, Some sample)
   \<and> updateMemory_guarded UserContextDO calm
        [(''profile'', JObj [(''riskFactors'', JStr ''oops'')])] (Some sample)
     = (Returns (JObj [(''profile'', JObj [(''riskFactors'', JStr ''oops''),
                              (''conditions'', JArr []), (''interests'', JArr [])]),
           (''conversation'', JObj [(''recentQuestions'', JArr []), (''keyInsights'', JArr [])]),
           (''meta'', JObj [(''createdAt'', JNum 2002), (''lastActive'', JNum 2005)])]),
        Some sample, [])"
proof -
  let ?p = "[(''profile'', JObj [(''riskFactors'', JStr ''oops'')])]"
  have 1: "updated sample ?p 2005
     = Returns (JObj [(''profile'', JObj [(''riskFactors'', JStr ''oops''),
                              (''conditions'', JArr [JStr ''B'']), (''interests'', JArr [])]),
           (''conversation'', JObj [(''recentQuestions'', JArr [JStr ''Q1'']),
                                   (''keyInsights'', JArr [])]),
           (''meta'', JObj [(''createdAt'', JNum 1500), (''lastActive'', JNum 2005)])])"
    by (simp add: run_defs sample_def)
  have 2: "updateMemory UserContextDO calm ?p (Some sample) = (Throws TypeError, Some sample)"
    by (simp add: updateMemory_def getMemory_def UserContextDO_def DurableObject_def)
  have 3: "updateMemory UserContextDO calm [] (Some sample) = (Throws TypeError, Some sample)"
    by (simp add: updateMemory_def getMemory_def UserContextDO_def DurableObject_def)
  have u: "updated (fallback calm) ?p (clock_upd calm)
     = Returns (JObj [(''profile'', JObj [(''riskFactors'', JStr ''oops''),
                              (''conditions'', JArr []), (''interests'', JArr [])]),
           (''conversation'', JObj [(''recentQuestions'', JArr []), (''keyInsights'', JArr [])]),
           (''meta'', JObj [(''createdAt'', JNum 2002), (''lastActive'', JNum 2005)])])"
    by (simp add: run_defs fallback_def calm_def)
  have 4: "updateMemory_guarded UserContextDO calm ?p (Some sample)
     = (Returns (JObj [(''profile'', JObj [(''riskFactors'', JStr ''oops''),
                              (''conditions'', JArr []), (''interests'', JArr [])]),
           (''conversation'', JObj [(''recentQuestions'', JArr []), (''keyInsights'', JArr [])]),
           (''meta'', JObj [(''createdAt'', JNum 2002), (''lastActive'', JNum 2005)])]),
        Some sample, [])"
    by (simp add: updateMemory_guarded_def getMemory_guarded_def UserContextDO_def
        DurableObject_def u)
  from 1 2 3 4 show ?thesis by (intro conjI)
qed

section \<open>Storage failures in the guarded revision\<close>

text \<open>
  C8, as the code has it. In the guarded revision a patch call never throws a storage
  error, and what it returns or throws is the same whether its write is rejected or
  not. On an object of the class as it is constructed it calls the storage not at all:
  it merges the patch into a fresh default record, leaves the slot as it was and logs
  nothing. Were \<^verbatim>\<open>this.state\<close> there: a rejected write leaves the slot as
  \<^verbatim>\<open>getMemory\<close> left it and, when the call returns, adds the line that the data was
  not persisted to the log; a rejected read with a working write stores and returns
  the merge into a fresh default record, over whatever was stored.
\<close>

theorem guarded_failure_swallowed:
  "fst (updateMemory_guarded this e patch slot) \<noteq> Throws StorageError
   \<and> updateMemory_guarded UserContextDO e patch slot
       = (updated (fallback e) patch (clock_upd e), slot, [])
   \<and> fst (updateMemory_guarded this (e\<lparr>put_fails := True\<rparr>) patch slot)
       = fst (updateMemory_guarded this (e\<lparr>put_fails := False\<rparr>) patch slot)
   \<and> (has_state this \<and> put_fails e \<longrightarrow>
        fst (snd (updateMemory_guarded this e patch slot))
          = fst (snd (getMemory_guarded this e slot))
        \<and> (\<forall>u. fst (updateMemory_guarded this e patch slot) = Returns u \<longrightarrow>
              snd (snd (updateMemory_guarded this e patch slot))
                = snd (snd (getMemory_guarded this e slot)) @ [log_not_persisted]))
   \<and> (has_state this \<and> get_fails e \<and> \<not> put_fails e \<longrightarrow>
        (\<forall>u. updated (fallback e) patch (clock_upd e) = Returns u \<longrightarrow>
           updateMemory_guarded this e patch slot = (Returns u, Some u, [log_fallback])))"
proof (intro conjI impI allI)
  show "fst (updateMemory_guarded this e patch slot) \<noteq> Throws StorageError"
    by (simp add: updateMemory_guarded_fst updated_no_StorageError)
next
  show "updateMemory_guarded UserContextDO e patch slot
       = (updated (fallback e) patch (clock_upd e), slot, [])"
    by (cases "updated (fallback e) patch (clock_upd e)")
       (simp_all add: updateMemory_guarded_def getMemory_guarded_def UserContextDO_def
          DurableObject_def)
next
  show "fst (updateMemory_guarded this (e\<lparr>put_fails := True\<rparr>) patch slot)
       = fst (updateMemory_guarded this (e\<lparr>put_fails := False\<rparr>) patch slot)"
    by (simp add: updateMemory_guarded_fst getMemory_guarded_put_fails)
next
  assume h: "has_state this \<and> put_fails e"
  obtain current slot1 logs where g: "getMemory_guarded this e slot = (current, slot1, logs)"
    by (cases "getMemory_guarded this e slot")
  with h show "fst (snd (updateMemory_guarded this e patch slot))
          = fst (snd (getMemory_guarded this e slot))"
    by (cases "updated current patch (clock_upd e)") (simp_all add: updateMemory_guarded_def)
next
  fix u
  assume h: "has_state this \<and> put_fails e"
    and r: "fst (updateMemory_guarded this e patch slot) = Returns u"
  obtain current slot1 logs where g: "getMemory_guarded this e slot = (current, slot1, logs)"
    by (cases "getMemory_guarded this e slot")
  with r have "updated current patch (clock_upd e) = Returns u"
    by (simp add: updateMemory_guarded_fst)
  with h g show "snd (snd (updateMemory_guarded this e patch slot))
                = snd (snd (getMemory_guarded this e slot)) @ [log_not_persisted]"
    by (simp add: updateMemory_guarded_def)
next
  fix u
  assume h: "has_state this \<and> get_fails e \<and> \<not> put_fails e"
    and u: "updated (fallback e) patch (clock_upd e) = Returns u"
  from h have "getMemory_guarded this e slot = (fallback e, slot, [log_fallback])"
    by (simp add: getMemory_guarded_def)
  with h u show "updateMemory_guarded this e patch slot = (Returns u, Some u, [log_fallback])"
    by (simp add: updateMemory_guarded_def)
qed

theorem guarded_failure_swallowed_witness:
  "updateMemory_guarded \<lparr>has_ctx = True, has_state = True\<rparr> (calm\<lparr>put_fails := True\<rparr>) []
      (Some sample)
     = (Returns (JObj [(''profile'', JObj [(''riskFactors'', JArr [JStr ''A'']),
                              (''conditions'', JArr [JStr ''B'']), (''interests'', JArr [])]),
           (''conversation'', JObj [(''recentQuestions'', JArr [JStr ''Q1'']),
                                   (''keyInsights'', JArr [])]),
           (''meta'', JObj [(''createdAt'', JNum 1500), (''lastActive'', JNum 2005)])]),
        Some sample, [log_not_persisted])
   \<and> updateMemory_guarded \<lparr>has_ctx = True, has_state = True\<rparr> (calm\<lparr>get_fails := True\<rparr>) []
      (Some sample)
     = (Returns (JObj [(''profile'', JObj [(''riskFactors'', JArr []), (''conditions'', JArr []),
                              (''interests'', JArr [])]),
           (''conversation'', JObj [(''recentQuestions'', JArr []), (''keyInsights'', JArr [])]),
           (''meta'', JObj [(''createdAt'', JNum 2002), (''lastActive'', JNum 2005)])]),
        Some (JObj [(''profile'', JObj [(''riskFactors'', JArr []), (''conditions'', JArr []),
                              (''interests'', JArr [])]),
           (''conversation'', JObj [(''recentQuestions'', JArr []), (''keyInsights'', JArr [])]),
           (''meta'', JObj [(''createdAt'', JNum 2002), (''lastActive'', JNum 2005)])]),
        [log_fallback])"
proof -
  let ?obj = "\<lparr>has_ctx = True, has_state = True\<rparr>"
  let ?e1 = "calm\<lparr>put_fails := True\<rparr>"
  let ?e2 = "calm\<lparr>get_fails := True\<rparr>"
  let ?r1 = "JObj [(''profile'', JObj [(''riskFactors'', JArr [JStr ''A'']),
                              (''conditions'', JArr [JStr ''B'']), (''interests'', JArr [])]),
           (''conversation'', JObj [(''recentQuestions'', JArr [JStr ''Q1'']),
                                   (''keyInsights'', JArr [])]),
           (''meta'', JObj [(''createdAt'', JNum 1500), (''lastActive'', JNum 2005)])]"
  let ?r2 = "JObj [(''profile'', JObj [(''riskFactors'', JArr []), (''conditions'', JArr []),
                              (''interests'', JArr [])]),
           (''conversation'', JObj [(''recentQuestions'', JArr []), (''keyInsights'', JArr [])]),
           (''meta'', JObj [(''createdAt'', JNum 2002), (''lastActive'', JNum 2005)])]"
  have g1: "getMemory_guarded ?obj ?e1 (Some sample) = (sample, Some sample, [])"
    by (simp add: getMemory_guarded_def storage_get_def calm_def sample_def Let_def)
  have c: "clock_upd calm = 2005" by (simp add: calm_def)
  have u1: "updated sample [] 2005 = Returns ?r1"
    by (simp add: run_defs sample_def)
  have f1: "fst (updateMemory_guarded ?obj ?e1 [] (Some sample)) = Returns ?r1"
    by (simp add: updateMemory_guarded_fst g1 c u1)
  have h1: "has_state ?obj \<and> put_fails ?e1" by simp
  note a = mp[OF conjunct1[OF conjunct2[OF conjunct2[OF conjunct2[OF
        guarded_failure_swallowed[of ?obj ?e1 "[]" "Some sample"]]]]] h1]
  from conjunct1[OF a] g1
  have s1: "fst (snd (updateMemory_guarded ?obj ?e1 [] (Some sample))) = Some sample" by simp
  from mp[OF spec[OF conjunct2[OF a]] f1] g1
  have l1: "snd (snd (updateMemory_guarded ?obj ?e1 [] (Some sample))) = [log_not_persisted]"
    by simp
  from f1 s1 l1
  have 1: "updateMemory_guarded ?obj ?e1 [] (Some sample)
             = (Returns ?r1, Some sample, [log_not_persisted])"
    by (cases "updateMemory_guarded ?obj ?e1 [] (Some sample)") simp
  have u2: "updated (fallback ?e2) [] (clock_upd ?e2) = Returns ?r2"
    by (simp add: run_defs fallback_def calm_def)
  have h2: "has_state ?obj \<and> get_fails ?e2 \<and> \<not> put_fails ?e2" by (simp add: calm_def)
  from mp[OF spec[OF mp[OF conjunct2[OF conjunct2[OF conjunct2[OF conjunct2[OF
        guarded_failure_swallowed[of ?obj ?e2 "[]" "Some sample"]]]]] h2]] u2]
  have 2: "updateMemory_guarded ?obj ?e2 [] (Some sample)
             = (Returns ?r2, Some ?r2, [log_fallback])" .
  from 1 2 show ?thesis by (intro conjI)
qed

text \<open>
  With every storage call failing, the patch call returns a record as if it had
  succeeded: on an object as constructed without a line in the log, on one with
  \<^verbatim>\<open>this.state\<close> after logging the failure.
\<close>

theorem guarded_failure_counterexample:
  "updateMemory_guarded UserContextDO stormy
      [(''profile'', JObj [(''conditions'', JArr [JStr ''C''])])] (Some sample)
     = (Returns (JObj [(''profile'', JObj [(''riskFactors'', JArr []),
                              (''conditions'', JArr [JStr ''C'']), (''interests'', JArr [])]),
           (''conversation'', JObj [(''recentQuestions'', JArr []), (''keyInsights'', JArr [])]),
           (''meta'', JObj [(''createdAt'', JNum 2002), (''lastActive'', JNum 2005)])]),
        Some sample, [])
   \<and> updateMemory_guarded \<lparr>has_ctx = True, has_state = True\<rparr> (calm\<lparr>put_fails := True\<rparr>)
      [(''profile'', JObj [(''conditions'', JArr [JStr ''C''])])] (Some sample)
     = (Returns (JObj [(''profile'', JObj [(''riskFactors'', JArr [JStr ''A'']),
                              (''conditions'', JArr [JStr ''C'']), (''interests'', JArr [])]),
           (''conversation'', JObj [(''recentQuestions'', JArr [JStr ''Q1'']),
                                   (''keyInsights'', JArr [])]),
           (''meta'', JObj [(''createdAt'', JNum 1500), (''lastActive'', JNum 2005)])]),
        Some sample, [log_not_persisted])"
proof -
  let ?p = "[(''profile'', JObj [(''conditions'', JArr [JStr ''C''])])]"
  have u1: "updated (fallback stormy) ?p (clock_upd stormy)
     = Returns (JObj [(''profile'', JObj [(''riskFactors'', JArr []),
                              (''conditions'', JArr [JStr ''C'']), (''interests'', JArr [])]),
           (''conversation'', JObj [(''recentQuestions'', JArr []), (''keyInsights'', JArr [])]),
           (''meta'', JObj [(''createdAt'', JNum 2002), (''lastActive'', JNum 2005)])])"
    by (simp add: run_defs fallback_def stormy_def calm_def)
  have 1: "updateMemory_guarded UserContextDO stormy ?p (Some sample)
     = (Returns (JObj [(''profile'', JObj [(''riskFactors'', JArr []),
                              (''conditions'', JArr [JStr ''C'']), (''interests'', JArr [])]),
           (''conversation'', JObj [(''recentQuestions'', JArr []), (''keyInsights'', JArr [])]),
           (''meta'', JObj [(''createdAt'', JNum 2002), (''lastActive'', JNum 2005)])]),
        Some sample, [])"
    by (simp add: updateMemory_guarded_def getMemory_guarded_def UserContextDO_def
        DurableObject_def u1)
  have g2: "getMemory_guarded \<lparr>has_ctx = True, has_state = True\<rparr> (calm\<lparr>put_fails := True\<rparr>)
      (Some sample) = (sample, Some sample, [])"
    by (simp add: getMemory_guarded_def storage_get_def calm_def sample_def Let_def)
  have c: "clock_upd calm = 2005" by (simp add: calm_def)
  have u2: "updated sample ?p 2005
     = Returns (JObj [(''profile'', JObj [(''riskFactors'', JArr [JStr ''A'']),
                              (''conditions'', JArr [JStr ''C'']), (''interests'', JArr [])]),
           (''conversation'', JObj [(''recentQuestions'', JArr [JStr ''Q1'']),
                                   (''keyInsights'', JArr [])]),
           (''meta'', JObj [(''createdAt'', JNum 1500), (''lastActive'', JNum 2005)])])"
    by (simp add: run_defs sample_def)
  have 2: "updateMemory_guarded \<lparr>has_ctx = True, has_state = True\<rparr> (calm\<lparr>put_fails := True\<rparr>)
      ?p (Some sample)
     = (Returns (JObj [(''profile'', JObj [(''riskFactors'', JArr [JStr ''A'']),
                              (''conditions'', JArr [JStr ''C'']), (''interests'', JArr [])]),
           (''conversation'', JObj [(''recentQuestions'', JArr [JStr ''Q1'']),
                                   (''keyInsights'', JArr [])]),
           (''meta'', JObj [(''createdAt'', JNum 1500), (''lastActive'', JNum 2005)])]),
        Some sample, [log_not_persisted])"
    by (simp add: updateMemory_guarded_def g2 c u2)
  from 1 2 show ?thesis by (intro conjI)
qed

section \<open>Keys outside the schema\<close>

text \<open>
  C10, as the code has it. For a record and a patch accepted for it, the second and
  third line of \<^verbatim>\<open>updateMemory\<close> produce a result in which every key of the patch
  other than \<^verbatim>\<open>__proto__\<close>, known to the schema or not, whose value is defined and
  not a plain object has that value; \<^verbatim>\<open>__proto__\<close> does not become a property of the
  result if it was none of the record. On an object of the class as it is constructed
  both methods throw a TypeError, so that nothing is persisted and no later call
  returns the key.
\<close>

theorem unknown_key_kept:
  assumes "isRecord m" and "accepted m p"
  shows "(\<exists>r. updated m p now = Returns r
          \<and> (\<forall>k v. propOf (JObj p) k = v \<and> v \<noteq> JUndefined \<and> \<not> isPlainObject v
                   \<and> k \<noteq> ''__proto__'' \<longrightarrow> propOf r k = v)
          \<and> (\<not> hasOwn m ''__proto__'' \<longrightarrow> \<not> hasOwn r ''__proto__''))
     \<and> updateMemory UserContextDO e p slot = (Throws TypeError, slot)
     \<and> getMemory UserContextDO e slot = (Throws TypeError, slot)"
proof -
  from assms(1) have j: "isJson m" by (simp add: isRecord_def)
  from assms(2) have w: "wf (JObj p)"
    and mp: "propOf (JObj p) ''meta'' = JUndefined \<or> isPlainObject (propOf (JObj p) ''meta'')"
    by (simp_all add: accepted_def)
  then have d: "distinct (map fst p)" by simp
  from updated_accepted[OF assms] obtain r where r: "updated m p now = Returns r" by blast
  from updated_other[OF r] obtain u pr where dm: "deepMerge m p = Returns (u, pr)"
    and other: "\<forall>k. k \<noteq> ''meta'' \<longrightarrow> propOf r k = propOf u k \<and> hasOwn r k = hasOwn u k"
    by blast
  from dm j have mk: "mergeKeys m ObjectProto p = Returns (u, pr)" by (simp add: deepMerge_isJson)
  have a: "propOf r k = v"
    if h: "propOf (JObj p) k = v \<and> v \<noteq> JUndefined \<and> \<not> isPlainObject v \<and> k \<noteq> ''__proto__''"
    for k v
  proof -
    from h mp have km: "k \<noteq> ''meta''" by auto
    from h propOf_mem[of p k v] have "(k, v) \<in> set p" by simp
    from mergeKeys_assign[OF d mk this] h have "propOf u k = v" by simp
    with other km show ?thesis by simp
  qed
  have b: "\<not> hasOwn r ''__proto__''" if "\<not> hasOwn m ''__proto__''"
    using mergeKeys_no_proto[OF mk that] other by simp
  from r a b getMemory_unbound updateMemory_unbound show ?thesis by blast
qed

theorem unknown_key_kept_witness:
  "isRecord sample \<and> accepted sample [(''nickname'', JStr ''Sam''), (''__proto__'', JNull)]
   \<and> (\<exists>r. updated sample [(''nickname'', JStr ''Sam''), (''__proto__'', JNull)] 2005 = Returns r
          \<and> propOf r ''nickname'' = JStr ''Sam'' \<and> \<not> hasOwn r ''__proto__'')"
proof -
  let ?p = "[(''nickname'', JStr ''Sam''), (''__proto__'', JNull)]"
  have rec: "isRecord sample" by (simp add: isRecord_def isJson_def sample_def)
  have acc: "accepted sample ?p" by (simp add: accepted_def sample_def)
  have g: "propOf (JObj ?p) ''nickname'' = JStr ''Sam'' \<and> JStr ''Sam'' \<noteq> JUndefined
           \<and> \<not> isPlainObject (JStr ''Sam'') \<and> ''nickname'' \<noteq> ''__proto__''" by simp
  have h: "\<not> hasOwn sample ''__proto__''" by (simp add: sample_def)
  from conjunct1[OF unknown_key_kept[OF rec acc, of 2005 calm None]] g h
  have "\<exists>r. updated sample ?p 2005 = Returns r
          \<and> propOf r ''nickname'' = JStr ''Sam'' \<and> \<not> hasOwn r ''__proto__''" by blast
  with rec acc show ?thesis by (intro conjI)
qed

text \<open>
  An unknown key with a plain object as its value is rejected: the merge recurses on the
  missing value and the copy of \<^verbatim>\<open>undefined\<close> throws. The unknown key
  \<^verbatim>\<open>__proto__\<close> is dropped. And the call of the first revision persists nothing.
\<close>

theorem unknown_key_counterexample:
  "updated sample [(''tags'', JObj [(''a'', JNum 1)])] 2005 = Throws SyntaxError
   \<and> updated sample [(''__proto__'', JStr ''x'')] 2005
     = Returns (JObj [(''profile'', JObj [(''riskFactors'', JArr [JStr ''A'']),
                              (''conditions'', JArr [JStr ''B'']), (''interests'', JArr [])]),
           (''conversation'', JObj [(''recentQuestions'', JArr [JStr ''Q1'']),
                                   (''keyInsights'', JArr [])]),
           (''meta'', JObj [(''createdAt'', JNum 1500), (''lastActive'', JNum 2005)])])
   \<and> updateMemory UserContextDO calm [(''nickname'', JStr ''Sam'')] None
     = (Throws TypeError, None)"
  by (simp add: run_defs sample_def updateMemory_def getMemory_def UserContextDO_def
      DurableObject_def)

end
